theory Spec2Isabelle
  imports Main "HOL-Library.Word" "HOL-Library.Char_ord" "HOL-Library.List_Lexorder"
begin

section \<open>Python values\<close>

text \<open>
  The transform engine of \<^verbatim>\<open>tcex/api/tc/ti_transform\<close> works on JSON-like Python values.
  A value is \<^verbatim>\<open>None\<close>, a bool, an int, a float (its IEEE 754 bit pattern), a str, a
  datetime (an opaque instant), a list, or a dict with string keys. A dict is an association
  list in insertion order, as Python dicts iterate. Strings are byte strings; iterating a
  \<^verbatim>\<open>str\<close> yields one string per byte, which is Python's behaviour on ASCII text.
\<close>

datatype pyval =
    PNone
  | PBool bool
  | PInt int
  | PFloat "64 word"
  | PStr string
  | PDatetime int
  | PList "pyval list"
  | PDict "(string \<times> pyval) list"

type_synonym pydict = "(string \<times> pyval) list"

text \<open>Python truthiness (\<^verbatim>\<open>bool(v)\<close>), as used by \<^verbatim>\<open>if v\<close>, \<^verbatim>\<open>any\<close> and \<^verbatim>\<open>all\<close>.\<close>

fun truthy :: "pyval \<Rightarrow> bool" where
  "truthy PNone = False"
| "truthy (PBool b) = b"
| "truthy (PInt i) = (i \<noteq> 0)"
| "truthy (PFloat w) = (w \<noteq> 0 \<and> w \<noteq> 0x8000000000000000)"
| "truthy (PStr s) = (s \<noteq> [])"
| "truthy (PDatetime t) = True"
| "truthy (PList xs) = (xs \<noteq> [])"
| "truthy (PDict d) = (d \<noteq> [])"

subsection \<open>Exceptions and log events\<close>

text \<open>
  \<^verbatim>\<open>NoValidTransformException\<close> and \<^verbatim>\<open>TransformException\<close> are declared in
  \<^verbatim>\<open>transform_abc.py\<close>; a \<^verbatim>\<open>TransformException\<close> carries \<^verbatim>\<open>field\<close>, \<^verbatim>\<open>cause\<close> and
  \<^verbatim>\<open>context\<close>. The other constructors are the built-in exceptions the modelled code can raise.
\<close>

datatype exc =
    NoValidTransformException
  | TransformException string exc pydict
  | RuntimeError string
  | KeyError string
  | TypeError
  | AttributeError
  | ValueError string
  | OtherException string

datatype log_event =
    LogTrace string nat
  | LogInfo string "pyval list"
  | LogWarning string string exc pydict
  | LogException string

text \<open>
  A call that mutates an object either returns, leaving the object in a new state, or raises,
  also leaving the object in some state: \<open>Inr s\<close> is a normal return with state \<open>s\<close>,
  \<open>Inl (e, s)\<close> is exception \<open>e\<close> raised with the object left in state \<open>s\<close>.
\<close>

type_synonym 'a outcome = "(exc \<times> 'a) + 'a"

subsection \<open>Dict operations\<close>

fun dict_get :: "('k \<times> 'v) list \<Rightarrow> 'k \<Rightarrow> 'v option" where
  "dict_get [] k = None"
| "dict_get ((k', v) # d) k = (if k' = k then Some v else dict_get d k)"

text \<open>\<^verbatim>\<open>d[k] = v\<close>: an existing key keeps its position, a new key goes last.\<close>

fun dict_set :: "('k \<times> 'v) list \<Rightarrow> 'k \<Rightarrow> 'v \<Rightarrow> ('k \<times> 'v) list" where
  "dict_set [] k v = [(k, v)]"
| "dict_set ((k', v') # d) k v = (if k' = k then (k, v) # d else (k', v') # dict_set d k v)"

text \<open>\<^verbatim>\<open>del d[k]\<close> for a key that is present, and \<^verbatim>\<open>d.pop(k, default)\<close>'s removal.\<close>

definition dict_del :: "('k \<times> 'v) list \<Rightarrow> 'k \<Rightarrow> ('k \<times> 'v) list" where
  "dict_del d k = filter (\<lambda>kv. fst kv \<noteq> k) d"

text \<open>\<^verbatim>\<open>v[k]\<close> for a string key \<open>k\<close>.\<close>

definition subscript :: "pyval \<Rightarrow> string \<Rightarrow> exc + pyval" where
  "subscript v k =
     (case v of
        PDict d \<Rightarrow> (case dict_get d k of None \<Rightarrow> Inl (KeyError k) | Some x \<Rightarrow> Inr x)
      | _ \<Rightarrow> Inl TypeError)"

text \<open>\<^verbatim>\<open>v.get(k, default)\<close>; only a dict has the method.\<close>

definition get_method :: "pyval \<Rightarrow> string \<Rightarrow> pyval \<Rightarrow> exc + pyval" where
  "get_method v k dflt =
     (case v of
        PDict d \<Rightarrow> (case dict_get d k of None \<Rightarrow> Inr dflt | Some x \<Rightarrow> Inr x)
      | _ \<Rightarrow> Inl AttributeError)"

text \<open>Iteration (\<^verbatim>\<open>for x in v\<close>, \<^verbatim>\<open>list.extend(v)\<close>): a dict yields its keys.\<close>

definition py_iter :: "pyval \<Rightarrow> exc + pyval list" where
  "py_iter v =
     (case v of
        PList xs \<Rightarrow> Inr xs
      | PStr s \<Rightarrow> Inr (map (\<lambda>c. PStr [c]) s)
      | PDict d \<Rightarrow> Inr (map (\<lambda>kv. PStr (fst kv)) d)
      | _ \<Rightarrow> Inl TypeError)"

text \<open>
  \<^verbatim>\<open>d.setdefault(k, []).append(x)\<close>. The \<^verbatim>\<open>setdefault\<close> call comes first and stores the empty
  list under a missing key; \<^verbatim>\<open>.append\<close> exists on lists only. The two steps are separate
  because the argument \<open>x\<close> is evaluated between them.
\<close>

definition setdefault_list :: "pydict \<Rightarrow> string \<Rightarrow> pydict" where
  "setdefault_list d k = (case dict_get d k of None \<Rightarrow> dict_set d k (PList []) | Some _ \<Rightarrow> d)"

definition has_append :: "pydict \<Rightarrow> string \<Rightarrow> bool" where
  "has_append d k = (case dict_get d k of Some (PList xs) \<Rightarrow> True | _ \<Rightarrow> False)"

definition list_append :: "pydict \<Rightarrow> string \<Rightarrow> pyval \<Rightarrow> pydict" where
  "list_append d k x = (case dict_get d k of Some (PList xs) \<Rightarrow> dict_set d k (PList (xs @ [x])) | _ \<Rightarrow> d)"

section \<open>The TiTransform object\<close>

text \<open>
  \<^verbatim>\<open>self.transform\<close> is the transform model selected for the record; the helpers only ask
  whether it is a \<^verbatim>\<open>GroupTransformModel\<close> or an \<^verbatim>\<open>IndicatorTransformModel\<close>.
\<close>

datatype transform_kind = GroupTransformModel | IndicatorTransformModel | NoTransformModel

record TiTransform =
  transformed_item :: pydict
  transform :: transform_kind
  seperate_batch_associations :: bool
  adhoc_groups :: "pyval list"
  adhoc_indicators :: "pyval list"
  log :: "log_event list"

text \<open>
  \<^verbatim>\<open>self.transformed_item.setdefault(k, []).append(mk(self.transformed_item))\<close>, where the
  appended value may read the item (and raise \<^verbatim>\<open>KeyError\<close>) after \<^verbatim>\<open>setdefault\<close> has run.
\<close>

definition item_setdefault_append ::
  "TiTransform \<Rightarrow> string \<Rightarrow> (pydict \<Rightarrow> exc + pyval) \<Rightarrow> TiTransform outcome" where
  "item_setdefault_append self k mk =
     (let d = setdefault_list (transformed_item self) k;
          self1 = self\<lparr>transformed_item := d\<rparr>
      in if \<not> has_append d k then Inl (AttributeError, self1)
         else (case mk d of
                 Inl e \<Rightarrow> Inl (e, self1)
               | Inr x \<Rightarrow> Inr (self\<lparr>transformed_item := list_append d k x\<rparr>)))"

text \<open>\<^verbatim>\<open>self.transformed_item[k]\<close> inside a dict display.\<close>

definition item_subscript :: "pydict \<Rightarrow> string \<Rightarrow> exc + pyval" where
  "item_subscript d k = (case dict_get d k of None \<Rightarrow> Inl (KeyError k) | Some x \<Rightarrow> Inr x)"

subsection \<open>Attributes\<close>

text \<open>The dict \<^verbatim>\<open>attribute_data\<close> that \<^verbatim>\<open>add_attribute\<close> builds before appending it.\<close>

definition attribute_data :: "pyval \<Rightarrow> pyval \<Rightarrow> pyval \<Rightarrow> pyval \<Rightarrow> pyval \<Rightarrow> pydict" where
  "attribute_data type' value displayed pinned source =
     (let a0 = [(''type'', type'), (''value'', value)];
          a1 = (if displayed = PBool True then dict_set a0 ''displayed'' displayed else a0);
          a2 = (if pinned = PBool True then dict_set a1 ''pinned'' displayed else a1);
          a3 = (if source \<noteq> PNone then dict_set a2 ''source'' source else a2)
      in a3)"

definition add_attribute ::
  "TiTransform \<Rightarrow> pyval \<Rightarrow> pyval \<Rightarrow> pyval \<Rightarrow> pyval \<Rightarrow> pyval \<Rightarrow> TiTransform outcome" where
  "add_attribute self type' value displayed pinned source =
     (if type' \<noteq> PNone \<and> value \<noteq> PNone
      then item_setdefault_append self ''attribute''
             (\<lambda>_. Inr (PDict (attribute_data type' value displayed pinned source)))
      else Inr self)"

text \<open>The elements of the list stored under a key; no elements when the key is missing.\<close>

definition entries :: "pydict \<Rightarrow> string \<Rightarrow> pyval list" where
  "entries d k = (case dict_get d k of Some (PList xs) \<Rightarrow> xs | _ \<Rightarrow> [])"

subsection \<open>Sequencing calls that may raise\<close>

definition bind_exc :: "exc + 'a \<Rightarrow> ('a \<Rightarrow> exc + 'b) \<Rightarrow> exc + 'b" where
  "bind_exc m f = (case m of Inl e \<Rightarrow> Inl e | Inr x \<Rightarrow> f x)"

text \<open>A list comprehension whose element expression may raise: the first failure ends it.\<close>

fun map_exc :: "('a \<Rightarrow> exc + 'b) \<Rightarrow> 'a list \<Rightarrow> exc + 'b list" where
  "map_exc f [] = Inr []"
| "map_exc f (x # xs) =
     (case f x of
        Inl e \<Rightarrow> Inl e
      | Inr y \<Rightarrow> (case map_exc f xs of Inl e \<Rightarrow> Inl e | Inr ys \<Rightarrow> Inr (y # ys)))"

text \<open>\<^verbatim>\<open>d.get(k)\<close>: \<^verbatim>\<open>None\<close> for a missing key.\<close>

definition py_get :: "pydict \<Rightarrow> string \<Rightarrow> pyval" where
  "py_get d k = (case dict_get d k of None \<Rightarrow> PNone | Some x \<Rightarrow> x)"

subsection \<open>Associations\<close>

definition add_custom_association ::
  "TiTransform \<Rightarrow> pyval \<Rightarrow> pyval \<Rightarrow> pyval \<Rightarrow> TiTransform outcome" where
  "add_custom_association self summary indicator_type association_type =
     (if \<not> seperate_batch_associations self
      then Inl (TransformException ''associatedIndicator''
                  (RuntimeError ''Cannot add associated indicator to IndicatorTransformModel when seperate_batch_associations is False.'')
                  (transformed_item self), self)
      else item_setdefault_append self ''association''
             (\<lambda>d. bind_exc (item_subscript d ''summary'') (\<lambda>ref_1.
                   bind_exc (item_subscript d ''type'') (\<lambda>type_1.
                   Inr (PDict [(''ref_1'', ref_1), (''type_1'', type_1), (''ref_2'', summary),
                               (''type_2'', indicator_type),
                               (''association_type'', association_type)])))))"

definition add_associated_indicator :: "TiTransform \<Rightarrow> pyval \<Rightarrow> pyval \<Rightarrow> TiTransform outcome" where
  "add_associated_indicator self summary indicator_type =
     (if \<not> seperate_batch_associations self
      then item_setdefault_append self ''associatedIndicators''
             (\<lambda>_. Inr (PDict [(''summary'', summary), (''indicatorType'', indicator_type)]))
      else item_setdefault_append self ''association''
             (\<lambda>d. bind_exc (item_subscript d ''xid'') (\<lambda>ref_1.
                   Inr (PDict [(''ref_1'', ref_1), (''ref_2'', summary),
                               (''type_2'', indicator_type)]))))"

text \<open>
  The \<^verbatim>\<open>self.log.info(...)\<close> call that follows the append in the two separate-association
  branches of \<^verbatim>\<open>add_associated_group\<close>; it reads \<^verbatim>\<open>self.transformed_item[k]\<close> once more.
\<close>

definition log_added_group :: "pyval \<Rightarrow> string \<Rightarrow> TiTransform outcome \<Rightarrow> TiTransform outcome" where
  "log_added_group group_xid k r =
     (case r of
        Inl es \<Rightarrow> Inl es
      | Inr self1 \<Rightarrow>
          (case item_subscript (transformed_item self1) k of
             Inl e \<Rightarrow> Inl (e, self1)
           | Inr x \<Rightarrow> Inr (self1\<lparr>log := log self1 @
                              [LogInfo ''Added associated group with xid: %s to %s'' [group_xid, x]]\<rparr>)))"

definition add_associated_group :: "TiTransform \<Rightarrow> pyval \<Rightarrow> TiTransform outcome" where
  "add_associated_group self group_xid =
     (if \<not> seperate_batch_associations self
      then (if transform self = GroupTransformModel
            then item_setdefault_append self ''associatedGroupXid'' (\<lambda>_. Inr group_xid)
            else if transform self = IndicatorTransformModel
            then item_setdefault_append self ''associatedGroups''
                   (\<lambda>_. Inr (PDict [(''groupXid'', group_xid)]))
            else Inr self)
      else if transform self = GroupTransformModel
      then log_added_group group_xid ''xid''
             (item_setdefault_append self ''association''
                (\<lambda>d. bind_exc (item_subscript d ''xid'') (\<lambda>ref_2.
                      Inr (PDict [(''ref_1'', group_xid), (''ref_2'', ref_2)]))))
      else if transform self = IndicatorTransformModel
      then log_added_group group_xid ''summary''
             (item_setdefault_append self ''association''
                (\<lambda>d. bind_exc (item_subscript d ''summary'') (\<lambda>ref_2.
                      bind_exc (item_subscript d ''type'') (\<lambda>type_2.
                      Inr (PDict [(''ref_1'', group_xid), (''ref_2'', ref_2),
                                  (''type_2'', type_2)])))))
      else Inr self)"

subsection \<open>File occurrences, tags, security labels\<close>

definition add_file_occurrence :: "TiTransform \<Rightarrow> pyval \<Rightarrow> pyval \<Rightarrow> pyval \<Rightarrow> TiTransform outcome" where
  "add_file_occurrence self file_name path date =
     item_setdefault_append self ''fileOccurrence''
       (\<lambda>_. Inr (PDict (filter (\<lambda>kv. truthy (snd kv))
                          [(''fileName'', file_name), (''path'', path), (''date'', date)])))"

definition label_data :: "pyval \<Rightarrow> pyval \<Rightarrow> pyval \<Rightarrow> pydict" where
  "label_data name color description =
     (let l0 = [(''name'', name)];
          l1 = (if color \<noteq> PNone then dict_set l0 ''color'' color else l0);
          l2 = (if description \<noteq> PNone then dict_set l1 ''description'' description else l1)
      in l2)"

definition add_security_label :: "TiTransform \<Rightarrow> pyval \<Rightarrow> pyval \<Rightarrow> pyval \<Rightarrow> TiTransform outcome" where
  "add_security_label self name color description =
     (if name \<noteq> PNone
      then item_setdefault_append self ''securityLabel''
             (\<lambda>_. Inr (PDict (label_data name color description)))
      else Inr self)"

definition add_tag :: "TiTransform \<Rightarrow> pyval \<Rightarrow> TiTransform outcome" where
  "add_tag self name =
     (if name \<noteq> PNone
      then item_setdefault_append self ''tag'' (\<lambda>_. Inr (PDict [(''name'', name)]))
      else Inr self)"

subsection \<open>Scalar fields\<close>

text \<open>
  \<^verbatim>\<open>int(x)\<close> and \<^verbatim>\<open>float(x)\<close> are Python built-ins; they are parameters \<open>py_int\<close> and
  \<open>py_float\<close> of the two helpers that call them. Each returns a number or raises.
\<close>

definition add_confidence :: "(pyval \<Rightarrow> exc + int) \<Rightarrow> TiTransform \<Rightarrow> pyval \<Rightarrow> TiTransform outcome" where
  "add_confidence py_int self confidence =
     (if confidence \<noteq> PNone
      then (case py_int confidence of
              Inl e \<Rightarrow> Inl (e, self)
            | Inr i \<Rightarrow> Inr (self\<lparr>transformed_item :=
                               dict_set (transformed_item self) ''confidence'' (PInt i)\<rparr>))
      else Inr self)"

definition add_rating :: "(pyval \<Rightarrow> exc + 64 word) \<Rightarrow> TiTransform \<Rightarrow> pyval \<Rightarrow> TiTransform outcome" where
  "add_rating py_float self rating =
     (if rating \<noteq> PNone
      then (case py_float rating of
              Inl e \<Rightarrow> Inl (e, self)
            | Inr f \<Rightarrow> Inr (self\<lparr>transformed_item :=
                               dict_set (transformed_item self) ''rating'' (PFloat f)\<rparr>))
      else Inr self)"

definition add_group :: "TiTransform \<Rightarrow> pyval \<Rightarrow> TiTransform" where
  "add_group self group_data = self\<lparr>adhoc_groups := adhoc_groups self @ [group_data]\<rparr>"

definition add_indicator :: "TiTransform \<Rightarrow> pyval \<Rightarrow> TiTransform" where
  "add_indicator self indicator_data =
     self\<lparr>adhoc_indicators := adhoc_indicators self @ [indicator_data]\<rparr>"

text \<open>
  \<^verbatim>\<open>add_metadata(key, value)\<close>: the key is a \<^verbatim>\<open>str\<close> or \<^verbatim>\<open>None\<close> (\<open>None\<close> here), and
  \<^verbatim>\<open>all([key, value])\<close> asks for a non-empty key and a truthy value.
\<close>

definition key_truthy :: "string option \<Rightarrow> bool" where
  "key_truthy key = (case key of None \<Rightarrow> False | Some k \<Rightarrow> k \<noteq> [])"

definition add_metadata :: "TiTransform \<Rightarrow> string option \<Rightarrow> pyval \<Rightarrow> TiTransform" where
  "add_metadata self key value =
     (if list_all id [key_truthy key, truthy value]
      then (case key of
              Some k \<Rightarrow> self\<lparr>transformed_item := dict_set (transformed_item self) k value\<rparr>
            | None \<Rightarrow> self)
      else self)"

definition add_name :: "TiTransform \<Rightarrow> pyval \<Rightarrow> TiTransform" where
  "add_name self name =
     (if name \<noteq> PNone
      then self\<lparr>transformed_item := dict_set (transformed_item self) ''name'' name\<rparr>
      else self)"

definition add_summary :: "TiTransform \<Rightarrow> pyval \<Rightarrow> TiTransform" where
  "add_summary self value =
     (if value \<noteq> PNone
      then self\<lparr>transformed_item := dict_set (transformed_item self) ''summary'' value\<rparr>
      else self)"

section \<open>Serialising one item\<close>

text \<open>
  Both properties first call \<^verbatim>\<open>self._process()\<close>, which lives in \<^verbatim>\<open>transform_abc.py\<close>. The two
  functions below are what each property does once \<^verbatim>\<open>_process\<close> has returned, on the state it
  left; the collection processor further down composes them with \<^verbatim>\<open>_process\<close>.
\<close>

text \<open>\<^verbatim>\<open>dict(sorted(self.transformed_item.items()))\<close>: the keys of a dict differ, so the
  tuples are ordered by key alone.\<close>

definition TiTransform_batch :: "TiTransform \<Rightarrow> pydict" where
  "TiTransform_batch self = sort_key fst (transformed_item self)"

text \<open>The dict comprehension \<^verbatim>\<open>{'xid': g for g in gs}\<close>: every element stores under the
  same key.\<close>

definition xid_comprehension :: "pyval list \<Rightarrow> pydict" where
  "xid_comprehension gs = foldl (\<lambda>d g. dict_set d ''xid'' g) [] gs"

definition v3_associated_groups :: "pydict \<Rightarrow> exc + pydict" where
  "v3_associated_groups v3_data =
     (if truthy (py_get v3_data ''associatedGroupXid'')
      then bind_exc (item_subscript v3_data ''associatedGroupXid'') (\<lambda>x.
           bind_exc (py_iter x) (\<lambda>gs.
           Inr (dict_del
                  (dict_set v3_data ''associatedGroups''
                     (PDict [(''data'', PList [PDict (xid_comprehension gs)])]))
                  ''associatedGroupXid'')))
      else Inr v3_data)"

definition v3_attribute :: "pyval \<Rightarrow> exc + pyval" where
  "v3_attribute a =
     bind_exc (subscript a ''type'') (\<lambda>t.
     bind_exc (subscript a ''value'') (\<lambda>v.
     bind_exc (get_method a ''pinned'' (PBool False)) (\<lambda>p.
     bind_exc (get_method a ''source'' PNone) (\<lambda>s.
     Inr (PDict [(''type'', t), (''value'', v), (''pinned'', p), (''source'', s)])))))"

definition v3_tag :: "pyval \<Rightarrow> exc + pyval" where
  "v3_tag t = bind_exc (subscript t ''name'') (\<lambda>n. Inr (PDict [(''name'', n)]))"

definition v3_security_label :: "pyval \<Rightarrow> exc + pyval" where
  "v3_security_label s =
     bind_exc (subscript s ''name'') (\<lambda>n.
     bind_exc (get_method s ''color'' PNone) (\<lambda>c.
     bind_exc (get_method s ''description'' PNone) (\<lambda>d.
     Inr (PDict [(''name'', n), (''color'', c), (''description'', d)]))))"

definition v3_file_occurrence :: "pyval \<Rightarrow> exc + pyval" where
  "v3_file_occurrence f =
     bind_exc (get_method f ''fileName'' PNone) (\<lambda>n.
     bind_exc (get_method f ''path'' PNone) (\<lambda>p.
     bind_exc (get_method f ''date'' PNone) (\<lambda>d.
     Inr (PDict [(''fileName'', n), (''path'', p), (''date'', d)]))))"

text \<open>
  The four blocks for attributes, tags, security labels and file occurrences have one shape:
  \<^verbatim>\<open>if v3_data.get(src): v3_data[dst] = {'data': [conv(x) for x in v3_data[src]]}; del v3_data[src]\<close>.
\<close>

definition v3_restructure ::
  "string \<Rightarrow> string \<Rightarrow> (pyval \<Rightarrow> exc + pyval) \<Rightarrow> pydict \<Rightarrow> exc + pydict" where
  "v3_restructure src dst conv v3_data =
     (if truthy (py_get v3_data src)
      then bind_exc (item_subscript v3_data src) (\<lambda>x.
           bind_exc (py_iter x) (\<lambda>xs.
           bind_exc (map_exc conv xs) (\<lambda>ys.
           Inr (dict_del (dict_set v3_data dst (PDict [(''data'', PList ys)])) src))))
      else Inr v3_data)"

definition TiTransform_v3_api :: "TiTransform \<Rightarrow> exc + pydict" where
  "TiTransform_v3_api self =
     bind_exc (v3_associated_groups (transformed_item self)) (\<lambda>v1.
     bind_exc (v3_restructure ''attribute'' ''attributes'' v3_attribute v1) (\<lambda>v2.
     bind_exc (v3_restructure ''tag'' ''tags'' v3_tag v2) (\<lambda>v3.
     bind_exc (v3_restructure ''securityLabel'' ''securityLabels'' v3_security_label v3) (\<lambda>v4.
     v3_restructure ''fileOccurrence'' ''fileOccurrences'' v3_file_occurrence v4))))"

section \<open>The collection processor\<close>

text \<open>
  \<^verbatim>\<open>TiTransforms.process\<close> wraps every raw record in a \<^verbatim>\<open>TiTransform\<close>; reading its
  \<^verbatim>\<open>batch\<close> or \<^verbatim>\<open>v3_api\<close> property runs \<^verbatim>\<open>_process\<close> on it. The parameter \<open>process\<close>
  stands for that step: for a raw record it gives the exception \<^verbatim>\<open>_process\<close> raises or the
  state of the \<^verbatim>\<open>TiTransform\<close> afterwards. \<open>raise_exc\<close> and \<open>seperate\<close> are the
  options \<^verbatim>\<open>raise_exceptions\<close> and \<^verbatim>\<open>seperate_batch_associations\<close> of the collection.
  A run yields the events its own \<^verbatim>\<open>self.log\<close> calls emit, and a result or the exception
  that ended it.
\<close>

text \<open>The three \<^verbatim>\<open>except\<close> clauses, shared by both loops: the event logged, and whether the
  clause re-raises.\<close>

definition except_log :: "exc \<Rightarrow> log_event" where
  "except_log e =
     (case e of
        NoValidTransformException \<Rightarrow> LogException ''feature=ti-transforms, event=runtime-error''
      | TransformException field cause ctx \<Rightarrow>
          LogWarning ''feature=ti-transforms, event=transform-error'' field cause ctx
      | _ \<Rightarrow> LogException ''feature=ti-transforms, event=transform-error'')"

definition reraises :: "bool \<Rightarrow> exc \<Rightarrow> bool" where
  "reraises raise_exc e =
     (case e of
        NoValidTransformException \<Rightarrow> False
      | TransformException field cause ctx \<Rightarrow> raise_exc
      | _ \<Rightarrow> raise_exc)"

definition progress_log :: "string \<Rightarrow> nat \<Rightarrow> log_event list \<Rightarrow> log_event list" where
  "progress_log msg index lg =
     (if index \<noteq> 0 \<and> index mod 1000 = 0 then lg @ [LogTrace msg index] else lg)"

record batch_data =
  group :: "pyval list"
  indicator :: "pyval list"
  association :: "pyval list option"

text \<open>The body of the batch loop after \<^verbatim>\<open>data = t.batch\<close> has succeeded.\<close>

definition batch_collect :: "bool \<Rightarrow> TiTransform \<Rightarrow> pydict \<Rightarrow> batch_data \<Rightarrow> exc + batch_data" where
  "batch_collect seperate t data batch =
     bind_exc
       (if seperate
        then bind_exc (py_iter (case dict_get data ''association'' of
                                  None \<Rightarrow> PList [] | Some a \<Rightarrow> a)) (\<lambda>associations.
             Inr (dict_del data ''association'',
                  batch\<lparr>association :=
                    Some ((case association batch of None \<Rightarrow> [] | Some xs \<Rightarrow> xs) @ associations)\<rparr>))
        else Inr (data, batch))
       (\<lambda>(data1, batch1).
          let batch2 = (if transform t = GroupTransformModel
                        then batch1\<lparr>group := group batch1 @ [PDict data1]\<rparr>
                        else if transform t = IndicatorTransformModel
                        then batch1\<lparr>indicator := indicator batch1 @ [PDict data1]\<rparr>
                        else batch1);
              batch3 = batch2\<lparr>group := group batch2 @ adhoc_groups t\<rparr>;
              batch4 = batch3\<lparr>indicator := indicator batch3 @ adhoc_indicators t\<rparr>
          in Inr batch4)"

fun batch_loop ::
  "('r \<Rightarrow> exc + TiTransform) \<Rightarrow> bool \<Rightarrow> bool \<Rightarrow> nat \<Rightarrow> 'r list \<Rightarrow> batch_data \<Rightarrow> log_event list
   \<Rightarrow> log_event list \<times> (exc + batch_data)" where
  "batch_loop process raise_exc seperate index [] batch lg = (lg, Inr batch)"
| "batch_loop process raise_exc seperate index (r # rs) batch lg =
     (let lg1 = progress_log ''feature=ti-transform-batch, items'' index lg
      in case process r of
           Inl e \<Rightarrow>
             (let lg2 = lg1 @ [except_log e]
              in if reraises raise_exc e then (lg2, Inl e)
                 else batch_loop process raise_exc seperate (Suc index) rs batch lg2)
         | Inr t \<Rightarrow>
             (case batch_collect seperate t (TiTransform_batch t) batch of
                Inl e \<Rightarrow> (lg1, Inl e)
              | Inr batch' \<Rightarrow> batch_loop process raise_exc seperate (Suc index) rs batch' lg1))"

definition TiTransforms_batch ::
  "('r \<Rightarrow> exc + TiTransform) \<Rightarrow> bool \<Rightarrow> bool \<Rightarrow> 'r list \<Rightarrow> log_event list \<times> (exc + batch_data)" where
  "TiTransforms_batch process raise_exc seperate ti_dicts =
     batch_loop process raise_exc seperate 0 ti_dicts
       \<lparr>group = [], indicator = [], association = None\<rparr>
       [LogTrace ''feature=ti-transform-batch, ti-count'' (length ti_dicts)]"

text \<open>
  The v3 result maps a type name to a list. \<^verbatim>\<open>data.pop('type')\<close> raises \<^verbatim>\<open>KeyError\<close> on a
  missing key, and a list or dict cannot be a dict key. Keys are compared structurally; the
  type name of an item is a string.
\<close>

type_synonym v3_result = "(pyval \<times> pyval list) list"

definition hashable :: "pyval \<Rightarrow> bool" where
  "hashable v = (case v of PList xs \<Rightarrow> False | PDict d \<Rightarrow> False | _ \<Rightarrow> True)"

text \<open>\<^verbatim>\<open>v3_data.setdefault(data.pop('type'), []).extend(data)\<close>: the argument of
  \<^verbatim>\<open>list.extend\<close> is the dict \<^verbatim>\<open>data\<close>, and iterating a dict yields its keys.\<close>

definition v3_collect :: "pydict \<Rightarrow> v3_result \<Rightarrow> exc + v3_result" where
  "v3_collect data v3_data =
     (case dict_get data ''type'' of
        None \<Rightarrow> Inl (KeyError ''type'')
      | Some ty \<Rightarrow>
          if \<not> hashable ty then Inl TypeError
          else bind_exc (py_iter (PDict (dict_del data ''type''))) (\<lambda>xs.
               Inr (dict_set v3_data ty
                      ((case dict_get v3_data ty of None \<Rightarrow> [] | Some ys \<Rightarrow> ys) @ xs))))"

fun v3_loop ::
  "('r \<Rightarrow> exc + TiTransform) \<Rightarrow> bool \<Rightarrow> nat \<Rightarrow> 'r list \<Rightarrow> v3_result \<Rightarrow> log_event list
   \<Rightarrow> log_event list \<times> (exc + v3_result)" where
  "v3_loop process raise_exc index [] v3_data lg = (lg, Inr v3_data)"
| "v3_loop process raise_exc index (r # rs) v3_data lg =
     (let lg1 = progress_log ''feature=ti-transform-v3, items'' index lg
      in case bind_exc (process r) TiTransform_v3_api of
           Inl e \<Rightarrow>
             (let lg2 = lg1 @ [except_log e]
              in if reraises raise_exc e then (lg2, Inl e)
                 else v3_loop process raise_exc (Suc index) rs v3_data lg2)
         | Inr data \<Rightarrow>
             (case v3_collect data v3_data of
                Inl e \<Rightarrow> (lg1, Inl e)
              | Inr v3_data' \<Rightarrow> v3_loop process raise_exc (Suc index) rs v3_data' lg1))"

definition TiTransforms_v3_api ::
  "('r \<Rightarrow> exc + TiTransform) \<Rightarrow> bool \<Rightarrow> 'r list \<Rightarrow> log_event list \<times> (exc + v3_result)" where
  "TiTransforms_v3_api process raise_exc ti_dicts =
     v3_loop process raise_exc 0 ti_dicts []
       [LogTrace ''feature=ti-transform-v3, ti-count'' (length ti_dicts)]"

section \<open>The transform configuration model\<close>

text \<open>
  The models of \<^verbatim>\<open>transform_model.py\<close> are pydantic classes. Field parsing and the order in
  which validators run belong to pydantic: a document is taken here with its fields already of
  their declared types, a field validator runs on a field that is given, the root validators
  run after the fields, and construction raises one \<^verbatim>\<open>ValidationError\<close> holding every
  \<^verbatim>\<open>ValueError\<close> a validator raised.
\<close>

datatype validation_error = ValidationError "exc list"

definition construct :: "exc list \<Rightarrow> 'a \<Rightarrow> validation_error + 'a" where
  "construct errors model = (if errors = [] then Inr model else Inl (ValidationError errors))"

definition errors_of :: "exc + 'a \<Rightarrow> exc list" where
  "errors_of r = (case r of Inl e \<Rightarrow> [e] | Inr _ \<Rightarrow> [])"

subsection \<open>TransformModel\<close>

text \<open>A \<^verbatim>\<open>method\<close> or \<^verbatim>\<open>for_each\<close> is a callable (named by a number here) or a
  \<^verbatim>\<open>PredefinedFunctionModel\<close> with its \<^verbatim>\<open>name\<close> and \<^verbatim>\<open>params\<close>.\<close>

datatype func = Callable nat | PredefinedFunctionModel string "pydict option"

record TransformModel =
  filter_map :: "pydict option"
  kwargs :: "pydict option"
  "method" :: "func option"
  for_each :: "func option"
  static_map :: "pydict option"

text \<open>\<^verbatim>\<open>_lower_map_keys\<close>; \<open>lower\<close> is \<^verbatim>\<open>str.lower\<close>. The dict comprehension stores the
  entries one by one, so a later key that lowers to an earlier one replaces its value.\<close>

definition lower_map_keys :: "(string \<Rightarrow> string) \<Rightarrow> pydict option \<Rightarrow> pydict option" where
  "lower_map_keys lower v =
     (case v of
        Some d \<Rightarrow> Some (foldl (\<lambda>acc kv. dict_set acc (lower (fst kv)) (snd kv)) [] d)
      | None \<Rightarrow> None)"

text \<open>The values \<^verbatim>\<open>_required_transform\<close> collects in \<^verbatim>\<open>fields\<close>: \<^verbatim>\<open>None\<close>, a dict, or a
  callable or model instance (which is truthy and differs from \<^verbatim>\<open>None\<close>).\<close>

datatype field_value = FNone | FDict pydict | FFunc func

definition of_dict :: "pydict option \<Rightarrow> field_value" where
  "of_dict v = (case v of None \<Rightarrow> FNone | Some d \<Rightarrow> FDict d)"

definition of_func :: "func option \<Rightarrow> field_value" where
  "of_func v = (case v of None \<Rightarrow> FNone | Some f \<Rightarrow> FFunc f)"

fun field_truthy :: "field_value \<Rightarrow> bool" where
  "field_truthy FNone = False"
| "field_truthy (FDict d) = (d \<noteq> [])"
| "field_truthy (FFunc f) = True"

definition required_transform :: "TransformModel \<Rightarrow> exc + TransformModel" where
  "required_transform v =
     (let fields = [of_dict (filter_map v), of_dict (static_map v),
                    of_func (method v), of_func (for_each v)]
      in if \<not> list_ex field_truthy fields
         then Inl (ValueError ''Either map or method must be defined.'')
         else if count_list fields FNone < 2
         then Inl (ValueError ''Only one transform mechanism can be defined.'')
         else Inr v)"

definition TransformModel_init :: "(string \<Rightarrow> string) \<Rightarrow> TransformModel \<Rightarrow> validation_error + TransformModel" where
  "TransformModel_init lower doc =
     (let v = doc\<lparr>filter_map := lower_map_keys lower (filter_map doc),
                 static_map := lower_map_keys lower (static_map doc)\<rparr>
      in construct (errors_of (required_transform v)) v)"

text \<open>How many of the four mechanisms a document sets, that is, gives a value other than
  \<^verbatim>\<open>None\<close>.\<close>

definition mechanisms_set :: "TransformModel \<Rightarrow> nat" where
  "mechanisms_set doc =
     length (filter (\<lambda>f. f \<noteq> FNone)
       [of_dict (filter_map doc), of_dict (static_map doc),
        of_func (method doc), of_func (for_each doc)])"

subsection \<open>PathTransformModel\<close>

record PathTransformModel =
  default' :: "string option"
  path :: "string option"

text \<open>
  \<^verbatim>\<open>_validate_path\<close>. \<^verbatim>\<open>jmespath.compile\<close> is a third-party function; \<open>compiles p\<close> says
  that it returns for the expression \<open>p\<close> rather than raising.
\<close>

definition validate_path :: "(string \<Rightarrow> bool) \<Rightarrow> string option \<Rightarrow> exc + string option" where
  "validate_path compiles v =
     (case v of
        Some p \<Rightarrow> if compiles p then Inr v else Inl (ValueError ''A valid path must be provided.'')
      | None \<Rightarrow> Inr v)"

definition str_truthy :: "string option \<Rightarrow> bool" where
  "str_truthy v = (case v of None \<Rightarrow> False | Some s \<Rightarrow> s \<noteq> [])"

text \<open>\<^verbatim>\<open>_default_or_path\<close>, on the values that passed field validation.\<close>

definition default_or_path :: "PathTransformModel \<Rightarrow> exc + PathTransformModel" where
  "default_or_path values =
     (if \<not> list_ex id [str_truthy (default' values), str_truthy (path values)]
      then Inl (ValueError ''Either default or path or both must be defined.'')
      else Inr values)"

text \<open>Construction: a field whose validator raised is missing from \<^verbatim>\<open>values\<close>, so the root
  validator reads \<^verbatim>\<open>None\<close> for it.\<close>

definition PathTransformModel_init ::
  "(string \<Rightarrow> bool) \<Rightarrow> string option \<Rightarrow> string option \<Rightarrow> validation_error + PathTransformModel" where
  "PathTransformModel_init compiles dflt pth =
     (let r = validate_path compiles pth;
          values = \<lparr>default' = dflt, path = (case r of Inl e \<Rightarrow> None | Inr p \<Rightarrow> p)\<rparr>
      in construct (errors_of r @ errors_of (default_or_path values)) values)"

subsection \<open>MetadataTransformModel\<close>

record MetadataTransformModel = PathTransformModel +
  transform_rules :: "TransformModel list option"

text \<open>The \<^verbatim>\<open>transform\<close> entry of a document: missing, one rule, or a list of rules;
  \<^verbatim>\<open>_always_array\<close> wraps a value that is not a list.\<close>

datatype transform_doc = TransformMissing | TransformOne TransformModel | TransformMany "TransformModel list"

definition always_array :: "transform_doc \<Rightarrow> TransformModel list option" where
  "always_array value =
     (case value of
        TransformMissing \<Rightarrow> None
      | TransformOne t \<Rightarrow> Some [t]
      | TransformMany ts \<Rightarrow> Some ts)"

definition rule_errors :: "(string \<Rightarrow> string) \<Rightarrow> TransformModel list \<Rightarrow> exc list" where
  "rule_errors lower docs =
     concat (map (\<lambda>doc. case TransformModel_init lower doc of
                           Inl (ValidationError es) \<Rightarrow> es | Inr _ \<Rightarrow> []) docs)"

definition validated_rules :: "(string \<Rightarrow> string) \<Rightarrow> TransformModel list \<Rightarrow> TransformModel list" where
  "validated_rules lower docs =
     concat (map (\<lambda>doc. case TransformModel_init lower doc of
                           Inl _ \<Rightarrow> [] | Inr m \<Rightarrow> [m]) docs)"

definition MetadataTransformModel_init ::
  "(string \<Rightarrow> bool) \<Rightarrow> (string \<Rightarrow> string) \<Rightarrow> string option \<Rightarrow> string option \<Rightarrow> transform_doc
   \<Rightarrow> validation_error + MetadataTransformModel" where
  "MetadataTransformModel_init compiles lower dflt pth tdoc =
     (let r = validate_path compiles pth;
          rules = always_array tdoc;
          rule_errs = (case rules of None \<Rightarrow> [] | Some docs \<Rightarrow> rule_errors lower docs);
          values = \<lparr>default' = dflt, path = (case r of Inl e \<Rightarrow> None | Inr p \<Rightarrow> p),
                    transform_rules = map_option (validated_rules lower) rules\<rparr>
      in construct
           (errors_of r @ rule_errs @ errors_of (default_or_path (PathTransformModel.truncate values)))
           values)"

subsection \<open>IndicatorTransformModel\<close>

text \<open>
  \<^verbatim>\<open>_one_indicator_value\<close> reads three of the validated fields. The record holds those
  three; the other fields of the model are in the record's extension. A field holds
  \<^verbatim>\<open>None\<close> or a \<^verbatim>\<open>MetadataTransformModel\<close> instance, which is truthy.
\<close>

record IndicatorTransformModel =
  value1 :: "MetadataTransformModel option"
  value2 :: "MetadataTransformModel option"
  value3 :: "MetadataTransformModel option"

definition model_truthy :: "MetadataTransformModel option \<Rightarrow> bool" where
  "model_truthy v = (case v of None \<Rightarrow> False | Some m \<Rightarrow> True)"

definition one_indicator_value ::
  "'a IndicatorTransformModel_scheme \<Rightarrow> exc + 'a IndicatorTransformModel_scheme" where
  "one_indicator_value values =
     (if \<not> list_ex id [model_truthy (value1 values), model_truthy (value2 values),
                        model_truthy (value3 values)]
      then Inl (ValueError ''An indicator transform must be defined (e.g., summary, value1, value2, value3).'')
      else Inr values)"

text \<open>Construction, given what pydantic's field validation produced: its errors and the
  validated values.\<close>

definition IndicatorTransformModel_init ::
  "exc list \<Rightarrow> 'a IndicatorTransformModel_scheme
   \<Rightarrow> validation_error + 'a IndicatorTransformModel_scheme" where
  "IndicatorTransformModel_init field_errors values =
     construct (field_errors @ errors_of (one_indicator_value values)) values"

section \<open>Null values in an item\<close>

text \<open>A value is free of nulls when it is not \<^verbatim>\<open>None\<close> and no list element or dict entry
  inside it, at any depth, is \<^verbatim>\<open>None\<close>.\<close>

fun null_free :: "pyval \<Rightarrow> bool" where
  "null_free PNone = False"
| "null_free (PList xs) = list_all null_free xs"
| "null_free (PDict d) = list_all (\<lambda>kv. null_free (snd kv)) d"
| "null_free _ = True"

text \<open>A dict none of whose values holds a null, and an object whose item is such a dict.\<close>

definition dict_null_free :: "pydict \<Rightarrow> bool" where
  "dict_null_free d = list_all (\<lambda>kv. null_free (snd kv)) d"

definition item_null_free :: "TiTransform \<Rightarrow> bool" where
  "item_null_free self = null_free (PDict (transformed_item self))"

text \<open>An argument a helper may be given: \<^verbatim>\<open>None\<close>, or a value without nulls inside.\<close>

definition null_or_free :: "pyval \<Rightarrow> bool" where
  "null_or_free v = (v = PNone \<or> null_free v)"

section \<open>Reading results\<close>

text \<open>The state an outcome leaves, whether the call returned or raised.\<close>

definition state_of :: "'a outcome \<Rightarrow> 'a" where
  "state_of r = (case r of Inl es \<Rightarrow> snd es | Inr s \<Rightarrow> s)"






text \<open>
  The shape the helpers give an item: under each of the four sub-entity keys, if present, a
  list of dicts, an attribute with its \<^verbatim>\<open>type\<close> and \<^verbatim>\<open>value\<close>, a tag and a security label
  with their \<^verbatim>\<open>name\<close>; under \<^verbatim>\<open>associatedGroupXid\<close>, if present, a list.
\<close>

definition entry_with :: "string list \<Rightarrow> pyval \<Rightarrow> bool" where
  "entry_with ks x = (case x of PDict d \<Rightarrow> list_all (\<lambda>k. dict_get d k \<noteq> None) ks | _ \<Rightarrow> False)"

definition list_with :: "string list \<Rightarrow> pydict \<Rightarrow> string \<Rightarrow> bool" where
  "list_with ks d k =
     (case dict_get d k of
        None \<Rightarrow> True
      | Some (PList xs) \<Rightarrow> list_all (entry_with ks) xs
      | Some _ \<Rightarrow> False)"

definition is_list_or_missing :: "pydict \<Rightarrow> string \<Rightarrow> bool" where
  "is_list_or_missing d k = (case dict_get d k of None \<Rightarrow> True | Some (PList xs) \<Rightarrow> True | Some _ \<Rightarrow> False)"

definition item_shape :: "pydict \<Rightarrow> bool" where
  "item_shape d =
     (is_list_or_missing d ''associatedGroupXid''
      \<and> list_with [''type'', ''value''] d ''attribute''
      \<and> list_with [''name''] d ''tag''
      \<and> list_with [''name''] d ''securityLabel''
      \<and> list_with [] d ''fileOccurrence'')"

section \<open>Example objects\<close>

text \<open>Concrete records, documents and stand-ins for built-ins, used where a statement is
  evaluated on an input.\<close>

definition new_item :: "transform_kind \<Rightarrow> bool \<Rightarrow> pydict \<Rightarrow> TiTransform" where
  "new_item kind sep d =
     \<lparr>transformed_item = d, transform = kind, seperate_batch_associations = sep,
      adhoc_groups = [], adhoc_indicators = [], log = []\<rparr>"

definition rule_doc ::
  "pydict option \<Rightarrow> pydict option \<Rightarrow> func option \<Rightarrow> func option \<Rightarrow> TransformModel" where
  "rule_doc fm sm m fe =
     \<lparr>filter_map = fm, kwargs = Some [], method = m, for_each = fe, static_map = sm\<rparr>"

definition example_group :: TiTransform where
  "example_group = new_item GroupTransformModel False
     [(''type'', PStr ''Adversary''), (''name'', PStr ''APT''),
      (''associatedGroupXid'', PList [PStr ''g1'', PStr ''g2'', PStr ''g3''])]"

definition example_process :: "nat \<Rightarrow> exc + TiTransform" where
  "example_process r =
     (if r = 1 then Inl NoValidTransformException
      else if r = 2 then Inl (TransformException ''rating'' (ValueError ''bad'') [])
      else Inr (new_item IndicatorTransformModel False
                  [(''type'', PStr ''Address''), (''summary'', PStr ''1.2.3.4'')]))"

text \<open>A stand-in for \<^verbatim>\<open>jmespath.compile\<close> in the examples: it accepts the non-empty
  expressions without a space.\<close>

definition example_compiles :: "string \<Rightarrow> bool" where
  "example_compiles p = (p \<noteq> [] \<and> CHR '' '' \<notin> set p)"

definition example_field :: MetadataTransformModel where
  "example_field = \<lparr>default' = None, path = Some ''value'', transform_rules = None\<rparr>"

definition example_indicator :: TiTransform where
  "example_indicator = new_item IndicatorTransformModel True
     [(''type'', PStr ''Address''), (''summary'', PStr ''1.2.3.4''), (''xid'', PStr ''x-1'')]"


text \<open>Stand-ins for \<^verbatim>\<open>int\<close> and \<^verbatim>\<open>float\<close> in the examples.\<close>

definition example_int :: "pyval \<Rightarrow> exc + int" where
  "example_int v = (case v of PInt i \<Rightarrow> Inr i | _ \<Rightarrow> Inl (ValueError ''invalid literal for int()''))"

definition example_float :: "pyval \<Rightarrow> exc + 64 word" where
  "example_float v = (case v of PFloat w \<Rightarrow> Inr w | _ \<Rightarrow> Inl (ValueError ''could not convert to float''))"


section \<open>Basic facts about dicts\<close>

lemma dict_get_set: "dict_get (dict_set d k v) k' = (if k' = k then Some v else dict_get d k')"
  by (induction d) auto

lemma dict_get_del: "dict_get (dict_del d k) k' = (if k' = k then None else dict_get d k')"
  by (induction d) (auto simp: dict_del_def)

lemma dict_get_setdefault_list:
  "dict_get (setdefault_list d k) k' =
     (if k' = k \<and> dict_get d k = None then Some (PList []) else dict_get d k')"
  by (auto simp: setdefault_list_def dict_get_set split: option.splits)

lemma has_append_iff: "has_append d k \<longleftrightarrow> (\<exists>xs. dict_get d k = Some (PList xs))"
  by (auto simp: has_append_def split: option.splits pyval.splits)

lemma dict_get_list_append:
  "dict_get d k = Some (PList xs) \<Longrightarrow>
   dict_get (list_append d k x) k' = (if k' = k then Some (PList (xs @ [x])) else dict_get d k')"
  by (simp add: list_append_def dict_get_set)

text \<open>What a successful \<^verbatim>\<open>setdefault(k, []).append(x)\<close> leaves in the item.\<close>

lemma item_setdefault_append_Inr:
  assumes "item_setdefault_append self k mk = Inr self'"
  shows "\<exists>x. mk (setdefault_list (transformed_item self) k) = Inr x
           \<and> self' = self\<lparr>transformed_item := list_append (setdefault_list (transformed_item self) k) k x\<rparr>
           \<and> dict_get (transformed_item self') k = Some (PList (entries (transformed_item self) k @ [x]))
           \<and> (\<forall>k'. k' \<noteq> k \<longrightarrow> dict_get (transformed_item self') k' = dict_get (transformed_item self) k')"
proof -
  let ?d = "setdefault_list (transformed_item self) k"
  from assms have ha: "has_append ?d k"
    by (auto simp: item_setdefault_append_def Let_def split: if_splits)
  from assms ha obtain x where mk: "mk ?d = Inr x"
    and self': "self' = self\<lparr>transformed_item := list_append ?d k x\<rparr>"
    by (auto simp: item_setdefault_append_def Let_def split: sum.splits)
  from ha obtain xs where xs: "dict_get ?d k = Some (PList xs)"
    by (auto simp: has_append_iff)
  have ent: "xs = entries (transformed_item self) k"
    using xs by (auto simp: entries_def dict_get_setdefault_list split: if_splits)
  have "dict_get (transformed_item self') k = Some (PList (entries (transformed_item self) k @ [x]))"
    using xs ent self' by (simp add: dict_get_list_append)
  moreover have "\<forall>k'. k' \<noteq> k \<longrightarrow> dict_get (transformed_item self') k' = dict_get (transformed_item self) k'"
    using xs self' by (simp add: dict_get_list_append dict_get_setdefault_list)
  ultimately show ?thesis using mk self' by blast
qed

section \<open>Attributes: the stored \<open>pinned\<close> field\<close>

lemma attribute_data_pinned:
  "dict_get (attribute_data type' value displayed pinned source) ''pinned'' =
     (if pinned = PBool True then Some displayed else None)"
  by (simp add: attribute_data_def Let_def dict_get_set)

text \<open>
  Claim C10. A call \<^verbatim>\<open>add_attribute(type_, value, displayed, pinned, source)\<close> with non-null
  \<^verbatim>\<open>type_\<close> and \<^verbatim>\<open>value\<close> that returns has appended one attribute dict to the item's
  \<^verbatim>\<open>attribute\<close> list. When \<^verbatim>\<open>pinned is True\<close>, the \<^verbatim>\<open>pinned\<close> field of that dict holds the
  value of the \<^verbatim>\<open>displayed\<close> argument, not of the \<^verbatim>\<open>pinned\<close> argument; when \<^verbatim>\<open>pinned\<close> is
  not \<^verbatim>\<open>True\<close>, the dict has no \<^verbatim>\<open>pinned\<close> field.
\<close>

theorem add_attribute_pinned_is_displayed:
  assumes "type' \<noteq> PNone" and "value \<noteq> PNone"
    and "add_attribute self type' value displayed pinned source = Inr self'"
  shows "\<exists>a. entries (transformed_item self') ''attribute''
               = entries (transformed_item self) ''attribute'' @ [PDict a]
           \<and> dict_get a ''type'' = Some type'
           \<and> dict_get a ''value'' = Some value
           \<and> (pinned = PBool True \<longrightarrow> dict_get a ''pinned'' = Some displayed)
           \<and> (pinned \<noteq> PBool True \<longrightarrow> dict_get a ''pinned'' = None)"
proof -
  let ?a = "attribute_data type' value displayed pinned source"
  from assms have "item_setdefault_append self ''attribute'' (\<lambda>_. Inr (PDict ?a)) = Inr self'"
    by (simp add: add_attribute_def)
  from item_setdefault_append_Inr [OF this]
  have "dict_get (transformed_item self') ''attribute''
          = Some (PList (entries (transformed_item self) ''attribute'' @ [PDict ?a]))"
    by auto
  then have "entries (transformed_item self') ''attribute''
          = entries (transformed_item self) ''attribute'' @ [PDict ?a]"
    by (simp add: entries_def)
  moreover have "dict_get ?a ''type'' = Some type'" "dict_get ?a ''value'' = Some value"
    by (simp_all add: attribute_data_def Let_def dict_get_set)
  ultimately show ?thesis
    by (intro exI [of _ ?a]) (simp add: attribute_data_pinned)
qed

lemma add_attribute_pinned_example:
  "add_attribute (new_item IndicatorTransformModel False []) (PStr ''Description'') (PStr ''text'')
     (PBool False) (PBool True) PNone
   = Inr (new_item IndicatorTransformModel False
            [(''attribute'', PList [PDict [(''type'', PStr ''Description''),
                                            (''value'', PStr ''text''),
                                            (''pinned'', PBool False)]])])"
  by (simp add: add_attribute_def item_setdefault_append_def setdefault_list_def has_append_def
        list_append_def attribute_data_def new_item_def Let_def)

theorem add_attribute_pinned_is_displayed_witness:
  "PStr ''Description'' \<noteq> PNone \<and> PStr ''text'' \<noteq> PNone
   \<and> add_attribute (new_item IndicatorTransformModel False []) (PStr ''Description'')
         (PStr ''text'') (PBool False) (PBool True) PNone
       = Inr (new_item IndicatorTransformModel False
                [(''attribute'', PList [PDict [(''type'', PStr ''Description''),
                                                (''value'', PStr ''text''),
                                                (''pinned'', PBool False)]])])
   \<and> (\<exists>a. entries (transformed_item (new_item IndicatorTransformModel False
                [(''attribute'', PList [PDict [(''type'', PStr ''Description''),
                                                (''value'', PStr ''text''),
                                                (''pinned'', PBool False)]])])) ''attribute''
              = entries (transformed_item (new_item IndicatorTransformModel False [])) ''attribute''
                @ [PDict a]
          \<and> dict_get a ''type'' = Some (PStr ''Description'')
          \<and> dict_get a ''value'' = Some (PStr ''text'')
          \<and> (PBool True = PBool True \<longrightarrow> dict_get a ''pinned'' = Some (PBool False))
          \<and> (PBool True \<noteq> PBool True \<longrightarrow> dict_get a ''pinned'' = None))"
proof -
  have t: "PStr ''Description'' \<noteq> PNone" and v: "PStr ''text'' \<noteq> PNone"
    by simp_all
  show ?thesis
    using t v add_attribute_pinned_example
      add_attribute_pinned_is_displayed [OF t v add_attribute_pinned_example]
    by (intro conjI)
qed

section \<open>TransformModel: the number of mechanisms\<close>

lemma required_transform_accepts_iff:
  "(required_transform v = Inr v) \<longleftrightarrow>
     (list_ex field_truthy [of_dict (filter_map v), of_dict (static_map v),
                            of_func (method v), of_func (for_each v)]
      \<and> mechanisms_set v \<le> 2)"
  by (auto simp: required_transform_def Let_def mechanisms_set_def)

lemma required_transform_rejects_none_set:
  "mechanisms_set v = 0 \<Longrightarrow>
   required_transform v = Inl (ValueError ''Either map or method must be defined.'')"
  by (auto simp: required_transform_def Let_def mechanisms_set_def split: if_splits)

lemma required_transform_rejects_three_or_more:
  "3 \<le> mechanisms_set v \<Longrightarrow> \<exists>e. required_transform v = Inl e"
  by (auto simp: required_transform_def Let_def mechanisms_set_def split: if_splits)

text \<open>
  Claim C1. Construction of a TransformModel should succeed exactly when exactly one of
  \<^verbatim>\<open>filter_map\<close>, \<^verbatim>\<open>static_map\<close>, \<^verbatim>\<open>method\<close>, \<^verbatim>\<open>for_each\<close> is set. The second check of
  \<^verbatim>\<open>_required_transform\<close>, \<^verbatim>\<open>fields.count(None) < 2\<close>, rejects three and four mechanisms
  but not two: the document below sets \<^verbatim>\<open>static_map\<close> and \<^verbatim>\<open>method\<close> and is accepted.
\<close>

theorem TransformModel_accepts_two_mechanisms:
  "mechanisms_set (rule_doc None (Some [(''high'', PStr ''High'')]) (Some (Callable 0)) None) = 2
   \<and> TransformModel_init lower
         (rule_doc None (Some [(''high'', PStr ''High'')]) (Some (Callable 0)) None)
       = Inr (rule_doc None (Some [(lower ''high'', PStr ''High'')]) (Some (Callable 0)) None)"
  by (simp add: TransformModel_init_def rule_doc_def lower_map_keys_def required_transform_def
      construct_def errors_of_def of_dict_def of_func_def Let_def mechanisms_set_def)

section \<open>The v3 extraction: what one record contributes\<close>

text \<open>
  Claim C2. Each record that transforms successfully should contribute one element, its v3
  entity dict without the \<^verbatim>\<open>type\<close> key, to the list of its type. The loop calls
  \<^verbatim>\<open>list.extend\<close> with that dict, so the list receives the dict's keys instead: a record
  whose v3 dict is \<^verbatim>\<open>{'type': 'Address', 'summary': '1.2.3.4'}\<close> contributes the string
  \<^verbatim>\<open>'summary'\<close>, not the dict \<^verbatim>\<open>{'summary': '1.2.3.4'}\<close>.
\<close>

theorem TiTransforms_v3_api_extends_with_keys:
  "snd (TiTransforms_v3_api (\<lambda>r. Inr (new_item IndicatorTransformModel False r)) False
         [[(''type'', PStr ''Address''), (''summary'', PStr ''1.2.3.4'')]])
     = Inr [(PStr ''Address'', [PStr ''summary''])]
   \<and> [(PStr ''Address'', [PStr ''summary''])]
       \<noteq> [(PStr ''Address'', [PDict [(''summary'', PStr ''1.2.3.4'')]])]"
  by (simp add: TiTransforms_v3_api_def progress_log_def bind_exc_def TiTransform_v3_api_def
       new_item_def v3_associated_groups_def v3_restructure_def py_get_def v3_collect_def
       hashable_def dict_del_def py_iter_def)

text \<open>In general, for an entity dict with a string type name, the list of that type receives
  the remaining keys of the dict.\<close>

lemma v3_collect_string_type:
  assumes "dict_get data ''type'' = Some (PStr ty)"
  shows "v3_collect data v3_data
           = Inr (dict_set v3_data (PStr ty)
                    ((case dict_get v3_data (PStr ty) of None \<Rightarrow> [] | Some ys \<Rightarrow> ys)
                     @ map (\<lambda>kv. PStr (fst kv)) (dict_del data ''type'')))"
  using assms by (simp add: v3_collect_def hashable_def py_iter_def bind_exc_def)

section \<open>Serialising an item for the v3 API\<close>

lemma bind_exc_Inr_iff:
  "bind_exc m f = Inr y \<longleftrightarrow> (\<exists>x. m = Inr x \<and> f x = Inr y)"
  by (cases m) (auto simp: bind_exc_def)

lemma bind_exc_simps:
  "bind_exc (Inr x) f = f x" "bind_exc (Inl e) f = Inl e"
  by (simp_all add: bind_exc_def)

lemma dict_del_set_same: "dict_del (dict_set d k v) k = dict_del d k"
  by (induction d) (auto simp: dict_del_def)

lemma dict_del_set_set:
  "k \<noteq> k' \<Longrightarrow> dict_del (dict_set (dict_set d k a) k' g) k = dict_del (dict_set d k' g) k"
  by (induction d) (auto simp: dict_del_def dict_del_set_same [unfolded dict_del_def])

lemma foldl_xid:
  "foldl (\<lambda>d g. dict_set d ''xid'' g) [(''xid'', y)] xs = [(''xid'', last (y # xs))]"
  by (induction xs arbitrary: y) auto

lemma xid_comprehension_last: "xs \<noteq> [] \<Longrightarrow> xid_comprehension xs = [(''xid'', last xs)]"
  by (cases xs) (auto simp: xid_comprehension_def foldl_xid)

lemma v3_associated_groups_list:
  assumes "dict_get d ''associatedGroupXid'' = Some (PList xs)" and "xs \<noteq> []"
  shows "v3_associated_groups d =
           Inr (dict_del (dict_set d ''associatedGroups''
                  (PDict [(''data'', PList [PDict [(''xid'', last xs)]])])) ''associatedGroupXid'')"
  using assms
  by (simp add: v3_associated_groups_def py_get_def item_subscript_def py_iter_def
        bind_exc_simps xid_comprehension_last)

lemma v3_associated_groups_last_only:
  assumes "dict_get d ''associatedGroupXid'' = Some (PList xs)" and "xs \<noteq> []"
  shows "v3_associated_groups (dict_set d ''associatedGroupXid'' (PList [last xs]))
           = v3_associated_groups d"
proof -
  have "dict_get (dict_set d ''associatedGroupXid'' (PList [last xs])) ''associatedGroupXid''
          = Some (PList [last xs])"
    by (simp add: dict_get_set)
  from v3_associated_groups_list [OF this] v3_associated_groups_list [OF assms]
  show ?thesis by (simp add: dict_del_set_set)
qed

lemma v3_restructure_get_other:
  assumes "v3_restructure src dst conv d = Inr d'" and "k \<noteq> src" and "k \<noteq> dst"
  shows "dict_get d' k = dict_get d k"
  using assms
  by (auto simp: v3_restructure_def bind_exc_Inr_iff dict_get_del dict_get_set split: if_splits)

text \<open>
  Claim C9. When the item's \<^verbatim>\<open>associatedGroupXid\<close> entry is a non-empty list of xids, the
  v3 serialisation emits \<^verbatim>\<open>associatedGroups\<close> as \<^verbatim>\<open>{'data': [{'xid': x}]}\<close> with \<open>x\<close> the last
  xid of the list and drops the \<^verbatim>\<open>associatedGroupXid\<close> key. The earlier xids have no effect on
  the output: replacing the list by the one-element list of its last xid gives the same
  serialisation.
\<close>

theorem v3_api_keeps_last_group_xid:
  assumes "dict_get (transformed_item self) ''associatedGroupXid'' = Some (PList xs)"
    and "xs \<noteq> []"
  shows "TiTransform_v3_api
           (self\<lparr>transformed_item :=
                   dict_set (transformed_item self) ''associatedGroupXid'' (PList [last xs])\<rparr>)
           = TiTransform_v3_api self
         \<and> (\<forall>v. TiTransform_v3_api self = Inr v \<longrightarrow>
               dict_get v ''associatedGroups''
                 = Some (PDict [(''data'', PList [PDict [(''xid'', last xs)]])])
               \<and> dict_get v ''associatedGroupXid'' = None)"
proof (intro conjI allI impI)
  show "TiTransform_v3_api
           (self\<lparr>transformed_item :=
                   dict_set (transformed_item self) ''associatedGroupXid'' (PList [last xs])\<rparr>)
           = TiTransform_v3_api self"
    by (simp add: TiTransform_v3_api_def v3_associated_groups_last_only [OF assms])
next
  fix v assume v: "TiTransform_v3_api self = Inr v"
  let ?d1 = "dict_del (dict_set (transformed_item self) ''associatedGroups''
                  (PDict [(''data'', PList [PDict [(''xid'', last xs)]])])) ''associatedGroupXid''"
  from v obtain d2 d3 d4 where
    s2: "v3_restructure ''attribute'' ''attributes'' v3_attribute ?d1 = Inr d2" and
    s3: "v3_restructure ''tag'' ''tags'' v3_tag d2 = Inr d3" and
    s4: "v3_restructure ''securityLabel'' ''securityLabels'' v3_security_label d3 = Inr d4" and
    s5: "v3_restructure ''fileOccurrence'' ''fileOccurrences'' v3_file_occurrence d4 = Inr v"
    by (auto simp: TiTransform_v3_api_def v3_associated_groups_list [OF assms] bind_exc_Inr_iff)
  have g: "dict_get v k = dict_get ?d1 k"
    if "k = ''associatedGroups'' \<or> k = ''associatedGroupXid''" for k
    using that v3_restructure_get_other [OF s2, of k] v3_restructure_get_other [OF s3, of k]
      v3_restructure_get_other [OF s4, of k] v3_restructure_get_other [OF s5, of k]
    by auto
  show "dict_get v ''associatedGroups''
          = Some (PDict [(''data'', PList [PDict [(''xid'', last xs)]])])"
    by (simp add: g dict_get_del dict_get_set)
  show "dict_get v ''associatedGroupXid'' = None"
    by (simp add: g dict_get_del dict_get_set)
qed


lemma v3_group_example:
  "TiTransform_v3_api example_group
   = Inr [(''type'', PStr ''Adversary''), (''name'', PStr ''APT''),
          (''associatedGroups'', PDict [(''data'', PList [PDict [(''xid'', PStr ''g3'')]])])]"
  by (simp add: TiTransform_v3_api_def v3_associated_groups_def v3_restructure_def py_get_def
        item_subscript_def py_iter_def bind_exc_def xid_comprehension_def dict_del_def new_item_def example_group_def)

theorem v3_api_keeps_last_group_xid_witness:
  "dict_get (transformed_item example_group) ''associatedGroupXid''
     = Some (PList [PStr ''g1'', PStr ''g2'', PStr ''g3''])
   \<and> [PStr ''g1'', PStr ''g2'', PStr ''g3''] \<noteq> []
   \<and> TiTransform_v3_api example_group
       = Inr [(''type'', PStr ''Adversary''), (''name'', PStr ''APT''),
          (''associatedGroups'', PDict [(''data'', PList [PDict [(''xid'', PStr ''g3'')]])])]
   \<and> dict_get [(''type'', PStr ''Adversary''), (''name'', PStr ''APT''),
          (''associatedGroups'', PDict [(''data'', PList [PDict [(''xid'', PStr ''g3'')]])])]
         ''associatedGroups''
       = Some (PDict [(''data'', PList [PDict [(''xid'', last [PStr ''g1'', PStr ''g2'', PStr ''g3''])]])])"
proof -
  have h1: "dict_get (transformed_item example_group) ''associatedGroupXid''
     = Some (PList [PStr ''g1'', PStr ''g2'', PStr ''g3''])"
    by (simp add: example_group_def new_item_def)
  have h2: "[PStr ''g1'', PStr ''g2'', PStr ''g3''] \<noteq> []" by simp
  from v3_api_keeps_last_group_xid [OF h1 h2] v3_group_example h1 h2 show ?thesis by blast
qed

section \<open>The collection processor: a record that fails\<close>

lemma batch_loop_data:
  "snd (batch_loop process raise_exc seperate i rs batch lg)
     = snd (batch_loop process raise_exc seperate j rs batch lg')"
proof (induction rs arbitrary: i j batch lg lg')
  case Nil
  show ?case by simp
next
  case (Cons r rs)
  show ?case
  proof (cases "process r")
    case (Inl e)
    then show ?thesis
      using Cons.IH [of "Suc i" batch _ "Suc j"] by (simp add: Let_def)
  next
    case (Inr t)
    then show ?thesis
      using Cons.IH [of "Suc i" _ _ "Suc j"] by (simp add: Let_def split: sum.splits)
  qed
qed

lemma batch_loop_append_Inl:
  "batch_loop process raise_exc seperate i rs1 batch lg = (lg', Inl e) \<Longrightarrow>
   batch_loop process raise_exc seperate i (rs1 @ rs2) batch lg = (lg', Inl e)"
proof (induction rs1 arbitrary: i batch lg)
  case Nil
  then show ?case by simp
next
  case (Cons r rs1)
  then show ?case
    by (cases "process r") (auto simp: Let_def split: sum.splits if_splits)
qed

lemma batch_loop_append_Inr:
  "batch_loop process raise_exc seperate i rs1 batch lg = (lg', Inr batch') \<Longrightarrow>
   batch_loop process raise_exc seperate i (rs1 @ rs2) batch lg
     = batch_loop process raise_exc seperate (i + length rs1) rs2 batch' lg'"
proof (induction rs1 arbitrary: i batch lg)
  case Nil
  then show ?case by simp
next
  case (Cons r rs1)
  then show ?case
    by (cases "process r") (auto simp: Let_def split: sum.splits if_splits)
qed

lemma batch_loop_log:
  "\<exists>ext. fst (batch_loop process raise_exc seperate i rs batch lg) = lg @ ext"
proof (induction rs arbitrary: i batch lg)
  case Nil
  show ?case by simp
next
  case (Cons r rs)
  have "\<exists>p. progress_log ''feature=ti-transform-batch, items'' i lg = lg @ p"
    by (simp add: progress_log_def)
  then obtain p where p: "progress_log ''feature=ti-transform-batch, items'' i lg = lg @ p" ..
  show ?case
  proof (cases "process r")
    case (Inl e)
    from Cons.IH [of "Suc i" batch "lg @ p @ [except_log e]"] Inl p show ?thesis
      by (auto simp: Let_def)
  next
    case (Inr t)
    show ?thesis
    proof (cases "batch_collect seperate t (TiTransform_batch t) batch")
      case (Inl e)
      with Inr p show ?thesis by (simp add: Let_def)
    next
      case b: (Inr batch')
      from Cons.IH [of "Suc i" batch' "lg @ p"] Inr b p show ?thesis
        by (auto simp: Let_def)
    qed
  qed
qed

lemma batch_loop_skip:
  assumes "process r = Inl e" and "\<not> reraises raise_exc e"
  shows "snd (batch_loop process raise_exc seperate i (rs1 @ r # rs2) batch lg)
           = snd (batch_loop process raise_exc seperate j (rs1 @ rs2) batch lg')"
proof -
  obtain l1 r1 where a: "batch_loop process raise_exc seperate i rs1 batch lg = (l1, r1)"
    by (cases "batch_loop process raise_exc seperate i rs1 batch lg")
  obtain l2 r2 where b: "batch_loop process raise_exc seperate j rs1 batch lg' = (l2, r2)"
    by (cases "batch_loop process raise_exc seperate j rs1 batch lg'")
  from a b batch_loop_data [of process raise_exc seperate i rs1 batch lg j lg']
  have r: "r1 = r2" by simp
  show ?thesis
  proof (cases r1)
    case (Inl e')
    with a b r show ?thesis
      by (simp add: batch_loop_append_Inl [where e = e'])
  next
    case (Inr batch')
    with a b r have a': "batch_loop process raise_exc seperate i rs1 batch lg = (l1, Inr batch')"
      and b': "batch_loop process raise_exc seperate j rs1 batch lg' = (l2, Inr batch')"
      by simp_all
    show ?thesis
      using assms
        batch_loop_data [of process raise_exc seperate "Suc (i + length rs1)" rs2 batch' _
                "j + length rs1" l2]
      by (simp add: batch_loop_append_Inr [OF a'] batch_loop_append_Inr [OF b'] Let_def)
  qed
qed

lemma batch_loop_skip_logged:
  assumes "process r = Inl e" and "\<not> reraises raise_exc e"
    and "snd (batch_loop process raise_exc seperate i rs1 batch lg) = Inr batch'"
  shows "except_log e \<in> set (fst (batch_loop process raise_exc seperate i (rs1 @ r # rs2) batch lg))"
proof -
  obtain l1 where a: "batch_loop process raise_exc seperate i rs1 batch lg = (l1, Inr batch')"
    using assms(3) by (cases "batch_loop process raise_exc seperate i rs1 batch lg") auto
  let ?l = "progress_log ''feature=ti-transform-batch, items'' (i + length rs1) l1 @ [except_log e]"
  from batch_loop_log [of process raise_exc seperate "Suc (i + length rs1)" rs2 batch' ?l]
  obtain ext where "fst (batch_loop process raise_exc seperate (Suc (i + length rs1)) rs2 batch' ?l)
      = ?l @ ext" by blast
  with assms show ?thesis by (simp add: batch_loop_append_Inr [OF a] Let_def)
qed

lemma batch_loop_reraise:
  assumes "process r = Inl e" and "reraises raise_exc e"
    and "snd (batch_loop process raise_exc seperate i rs1 batch lg) = Inr batch'"
  shows "snd (batch_loop process raise_exc seperate j (rs1 @ r # rs2) batch lg') = Inl e"
proof -
  from assms(3) batch_loop_data [of process raise_exc seperate i rs1 batch lg j lg']
  obtain l1 where a: "batch_loop process raise_exc seperate j rs1 batch lg' = (l1, Inr batch')"
    by (cases "batch_loop process raise_exc seperate j rs1 batch lg'") auto
  from assms show ?thesis by (simp add: batch_loop_append_Inr [OF a] Let_def)
qed

lemma v3_loop_data:
  "snd (v3_loop process raise_exc i rs v3_data lg)
     = snd (v3_loop process raise_exc j rs v3_data lg')"
proof (induction rs arbitrary: i j v3_data lg lg')
  case Nil
  show ?case by simp
next
  case (Cons r rs)
  show ?case
  proof (cases "bind_exc (process r) TiTransform_v3_api")
    case (Inl e)
    then show ?thesis
      using Cons.IH [of "Suc i" v3_data _ "Suc j"] by (simp add: Let_def)
  next
    case (Inr t)
    then show ?thesis
      using Cons.IH [of "Suc i" _ _ "Suc j"] by (simp add: Let_def split: sum.splits)
  qed
qed

lemma v3_loop_append_Inl:
  "v3_loop process raise_exc i rs1 v3_data lg = (lg', Inl e) \<Longrightarrow>
   v3_loop process raise_exc i (rs1 @ rs2) v3_data lg = (lg', Inl e)"
proof (induction rs1 arbitrary: i v3_data lg)
  case Nil
  then show ?case by simp
next
  case (Cons r rs1)
  then show ?case
    by (cases "bind_exc (process r) TiTransform_v3_api") (auto simp: Let_def split: sum.splits if_splits)
qed

lemma v3_loop_append_Inr:
  "v3_loop process raise_exc i rs1 v3_data lg = (lg', Inr v3_data') \<Longrightarrow>
   v3_loop process raise_exc i (rs1 @ rs2) v3_data lg
     = v3_loop process raise_exc (i + length rs1) rs2 v3_data' lg'"
proof (induction rs1 arbitrary: i v3_data lg)
  case Nil
  then show ?case by simp
next
  case (Cons r rs1)
  then show ?case
    by (cases "bind_exc (process r) TiTransform_v3_api") (auto simp: Let_def split: sum.splits if_splits)
qed

lemma v3_loop_log:
  "\<exists>ext. fst (v3_loop process raise_exc i rs v3_data lg) = lg @ ext"
proof (induction rs arbitrary: i v3_data lg)
  case Nil
  show ?case by simp
next
  case (Cons r rs)
  have "\<exists>p. progress_log ''feature=ti-transform-v3, items'' i lg = lg @ p"
    by (simp add: progress_log_def)
  then obtain p where p: "progress_log ''feature=ti-transform-v3, items'' i lg = lg @ p" ..
  show ?case
  proof (cases "bind_exc (process r) TiTransform_v3_api")
    case (Inl e)
    from Cons.IH [of "Suc i" v3_data "lg @ p @ [except_log e]"] Inl p show ?thesis
      by (auto simp: Let_def)
  next
    case (Inr t)
    show ?thesis
    proof (cases "v3_collect t v3_data")
      case (Inl e)
      with Inr p show ?thesis by (simp add: Let_def)
    next
      case b: (Inr v3_data')
      from Cons.IH [of "Suc i" v3_data' "lg @ p"] Inr b p show ?thesis
        by (auto simp: Let_def)
    qed
  qed
qed

lemma v3_loop_skip:
  assumes "bind_exc (process r) TiTransform_v3_api = Inl e" and "\<not> reraises raise_exc e"
  shows "snd (v3_loop process raise_exc i (rs1 @ r # rs2) v3_data lg)
           = snd (v3_loop process raise_exc j (rs1 @ rs2) v3_data lg')"
proof -
  obtain l1 r1 where a: "v3_loop process raise_exc i rs1 v3_data lg = (l1, r1)"
    by (cases "v3_loop process raise_exc i rs1 v3_data lg")
  obtain l2 r2 where b: "v3_loop process raise_exc j rs1 v3_data lg' = (l2, r2)"
    by (cases "v3_loop process raise_exc j rs1 v3_data lg'")
  from a b v3_loop_data [of process raise_exc i rs1 v3_data lg j lg']
  have r: "r1 = r2" by simp
  show ?thesis
  proof (cases r1)
    case (Inl e')
    with a b r show ?thesis
      by (simp add: v3_loop_append_Inl [where e = e'])
  next
    case (Inr v3_data')
    with a b r have a': "v3_loop process raise_exc i rs1 v3_data lg = (l1, Inr v3_data')"
      and b': "v3_loop process raise_exc j rs1 v3_data lg' = (l2, Inr v3_data')"
      by simp_all
    show ?thesis
      using assms
        v3_loop_data [of process raise_exc "Suc (i + length rs1)" rs2 v3_data' _
                "j + length rs1" l2]
      by (simp add: v3_loop_append_Inr [OF a'] v3_loop_append_Inr [OF b'] Let_def)
  qed
qed

lemma v3_loop_skip_logged:
  assumes "bind_exc (process r) TiTransform_v3_api = Inl e" and "\<not> reraises raise_exc e"
    and "snd (v3_loop process raise_exc i rs1 v3_data lg) = Inr v3_data'"
  shows "except_log e \<in> set (fst (v3_loop process raise_exc i (rs1 @ r # rs2) v3_data lg))"
proof -
  obtain l1 where a: "v3_loop process raise_exc i rs1 v3_data lg = (l1, Inr v3_data')"
    using assms(3) by (cases "v3_loop process raise_exc i rs1 v3_data lg") auto
  let ?l = "progress_log ''feature=ti-transform-v3, items'' (i + length rs1) l1 @ [except_log e]"
  from v3_loop_log [of process raise_exc "Suc (i + length rs1)" rs2 v3_data' ?l]
  obtain ext where "fst (v3_loop process raise_exc (Suc (i + length rs1)) rs2 v3_data' ?l)
      = ?l @ ext" by blast
  with assms show ?thesis by (simp add: v3_loop_append_Inr [OF a] Let_def)
qed

lemma v3_loop_reraise:
  assumes "bind_exc (process r) TiTransform_v3_api = Inl e" and "reraises raise_exc e"
    and "snd (v3_loop process raise_exc i rs1 v3_data lg) = Inr v3_data'"
  shows "snd (v3_loop process raise_exc j (rs1 @ r # rs2) v3_data lg') = Inl e"
proof -
  from assms(3) v3_loop_data [of process raise_exc i rs1 v3_data lg j lg']
  obtain l1 where a: "v3_loop process raise_exc j rs1 v3_data lg' = (l1, Inr v3_data')"
    by (cases "v3_loop process raise_exc j rs1 v3_data lg'") auto
  from assms show ?thesis by (simp add: v3_loop_append_Inr [OF a] Let_def)
qed

lemma reraises_iff: "reraises raise_exc e \<longleftrightarrow> e \<noteq> NoValidTransformException \<and> raise_exc"
  by (cases e) (simp_all add: reraises_def)

text \<open>
  Claim C4. In a batch or v3 extraction run, a record whose transform raises
  \<^verbatim>\<open>NoValidTransformException\<close> is skipped and logged whatever \<^verbatim>\<open>raise_exceptions\<close> is;
  a record whose transform raises a \<^verbatim>\<open>TransformException\<close> or any other exception is
  skipped and logged when \<^verbatim>\<open>raise_exceptions\<close> is false, and when it is true the exception
  leaves the run (provided the run got as far as that record). A skipped record leaves the
  result of the run as if it had not been in the input. For the v3 run the exception may come
  from \<^verbatim>\<open>_process\<close> or from the v3 serialisation of the item.
\<close>

theorem failed_record_skipped_or_reraised:
  "(process r = Inl e \<and> (e = NoValidTransformException \<or> \<not> raise_exc) \<longrightarrow>
      snd (TiTransforms_batch process raise_exc seperate (rs1 @ r # rs2))
        = snd (TiTransforms_batch process raise_exc seperate (rs1 @ rs2))
      \<and> (snd (TiTransforms_batch process raise_exc seperate rs1) = Inr b \<longrightarrow>
           except_log e
             \<in> set (fst (TiTransforms_batch process raise_exc seperate (rs1 @ r # rs2)))))
   \<and> (process r = Inl e \<and> e \<noteq> NoValidTransformException \<and> raise_exc
        \<and> snd (TiTransforms_batch process raise_exc seperate rs1) = Inr b \<longrightarrow>
      snd (TiTransforms_batch process raise_exc seperate (rs1 @ r # rs2)) = Inl e)
   \<and> (bind_exc (process r) TiTransform_v3_api = Inl e
        \<and> (e = NoValidTransformException \<or> \<not> raise_exc) \<longrightarrow>
      snd (TiTransforms_v3_api process raise_exc (rs1 @ r # rs2))
        = snd (TiTransforms_v3_api process raise_exc (rs1 @ rs2))
      \<and> (snd (TiTransforms_v3_api process raise_exc rs1) = Inr v \<longrightarrow>
           except_log e \<in> set (fst (TiTransforms_v3_api process raise_exc (rs1 @ r # rs2)))))
   \<and> (bind_exc (process r) TiTransform_v3_api = Inl e
        \<and> e \<noteq> NoValidTransformException \<and> raise_exc
        \<and> snd (TiTransforms_v3_api process raise_exc rs1) = Inr v \<longrightarrow>
      snd (TiTransforms_v3_api process raise_exc (rs1 @ r # rs2)) = Inl e)"
proof (intro conjI impI)
  assume h: "process r = Inl e \<and> (e = NoValidTransformException \<or> \<not> raise_exc)"
  then have p: "process r = Inl e" and n: "\<not> reraises raise_exc e"
    by (auto simp: reraises_iff)
  show "snd (TiTransforms_batch process raise_exc seperate (rs1 @ r # rs2))
        = snd (TiTransforms_batch process raise_exc seperate (rs1 @ rs2))"
    unfolding TiTransforms_batch_def by (rule batch_loop_skip [where process = process and r = r, OF p n])
  assume "snd (TiTransforms_batch process raise_exc seperate rs1) = Inr b"
  then have "snd (batch_loop process raise_exc seperate 0 rs1
                \<lparr>group = [], indicator = [], association = None\<rparr>
                [LogTrace ''feature=ti-transform-batch, ti-count'' (length (rs1 @ r # rs2))]) = Inr b"
    unfolding TiTransforms_batch_def
    using batch_loop_data [of process raise_exc seperate 0 rs1 _ _ 0] by metis
  from batch_loop_skip_logged [where process = process and r = r, OF p n this]
  show "except_log e \<in> set (fst (TiTransforms_batch process raise_exc seperate (rs1 @ r # rs2)))"
    unfolding TiTransforms_batch_def .
next
  assume h: "process r = Inl e \<and> e \<noteq> NoValidTransformException \<and> raise_exc
        \<and> snd (TiTransforms_batch process raise_exc seperate rs1) = Inr b"
  then have p: "process r = Inl e" and n: "reraises raise_exc e"
    by (auto simp: reraises_iff)
  from h show "snd (TiTransforms_batch process raise_exc seperate (rs1 @ r # rs2)) = Inl e"
    unfolding TiTransforms_batch_def using batch_loop_reraise [where process = process and r = r, OF p n] by blast
next
  assume h: "bind_exc (process r) TiTransform_v3_api = Inl e
        \<and> (e = NoValidTransformException \<or> \<not> raise_exc)"
  then have p: "bind_exc (process r) TiTransform_v3_api = Inl e" and n: "\<not> reraises raise_exc e"
    by (auto simp: reraises_iff)
  show "snd (TiTransforms_v3_api process raise_exc (rs1 @ r # rs2))
        = snd (TiTransforms_v3_api process raise_exc (rs1 @ rs2))"
    unfolding TiTransforms_v3_api_def by (rule v3_loop_skip [where process = process and r = r, OF p n])
  assume "snd (TiTransforms_v3_api process raise_exc rs1) = Inr v"
  then have "snd (v3_loop process raise_exc 0 rs1 []
                [LogTrace ''feature=ti-transform-v3, ti-count'' (length (rs1 @ r # rs2))]) = Inr v"
    unfolding TiTransforms_v3_api_def
    using v3_loop_data [of process raise_exc 0 rs1 _ _ 0] by metis
  from v3_loop_skip_logged [where process = process and r = r, OF p n this]
  show "except_log e \<in> set (fst (TiTransforms_v3_api process raise_exc (rs1 @ r # rs2)))"
    unfolding TiTransforms_v3_api_def .
next
  assume h: "bind_exc (process r) TiTransform_v3_api = Inl e
        \<and> e \<noteq> NoValidTransformException \<and> raise_exc
        \<and> snd (TiTransforms_v3_api process raise_exc rs1) = Inr v"
  then have p: "bind_exc (process r) TiTransform_v3_api = Inl e" and n: "reraises raise_exc e"
    by (auto simp: reraises_iff)
  from h show "snd (TiTransforms_v3_api process raise_exc (rs1 @ r # rs2)) = Inl e"
    unfolding TiTransforms_v3_api_def using v3_loop_reraise [where process = process and r = r, OF p n] by blast
qed

theorem failed_record_skipped_or_reraised_witness:
  "example_process 1 = Inl NoValidTransformException
   \<and> snd (TiTransforms_batch example_process True False ([0] @ 1 # [0]))
       = snd (TiTransforms_batch example_process True False ([0] @ [0]))
   \<and> except_log NoValidTransformException
       \<in> set (fst (TiTransforms_batch example_process True False ([0] @ 1 # [0])))
   \<and> example_process 2 = Inl (TransformException ''rating'' (ValueError ''bad'') [])
   \<and> snd (TiTransforms_batch example_process False False ([0] @ 2 # [0]))
       = snd (TiTransforms_batch example_process False False ([0] @ [0]))
   \<and> snd (TiTransforms_batch example_process True False ([0] @ 2 # [0]))
       = Inl (TransformException ''rating'' (ValueError ''bad'') [])
   \<and> snd (TiTransforms_v3_api example_process True ([0] @ 1 # [0]))
       = snd (TiTransforms_v3_api example_process True ([0] @ [0]))
   \<and> except_log NoValidTransformException
       \<in> set (fst (TiTransforms_v3_api example_process True ([0] @ 1 # [0])))
   \<and> snd (TiTransforms_v3_api example_process False ([0] @ 2 # [0]))
       = snd (TiTransforms_v3_api example_process False ([0] @ [0]))
   \<and> snd (TiTransforms_v3_api example_process True ([0] @ 2 # [0]))
       = Inl (TransformException ''rating'' (ValueError ''bad'') [])"
proof -
  let ?te = "TransformException ''rating'' (ValueError ''bad'') []"
  let ?b = "\<lparr>group = [],
             indicator = [PDict [(''summary'', PStr ''1.2.3.4''), (''type'', PStr ''Address'')]],
             association = None\<rparr>"
  let ?v = "[(PStr ''Address'', [PStr ''summary''])]"
  have p1: "example_process 1 = Inl NoValidTransformException"
    and p2: "example_process 2 = Inl ?te"
    by (simp_all add: example_process_def)
  have q1: "bind_exc (example_process 1) TiTransform_v3_api = Inl NoValidTransformException"
    and q2: "bind_exc (example_process 2) TiTransform_v3_api = Inl ?te"
    by (simp_all add: example_process_def bind_exc_def)
  have ne: "?te \<noteq> NoValidTransformException" by simp
  have bT: "snd (TiTransforms_batch example_process True False [0]) = Inr ?b"
    by code_simp
  have vT: "snd (TiTransforms_v3_api example_process True [0]) = Inr ?v"
    by code_simp
  note a = failed_record_skipped_or_reraised
             [of example_process 1 NoValidTransformException True False "[0]" "[0]" ?b ?v]
  note b = failed_record_skipped_or_reraised
             [of example_process 2 ?te False False "[0]" "[0]" ?b ?v]
  note c = failed_record_skipped_or_reraised
             [of example_process 2 ?te True False "[0]" "[0]" ?b ?v]
  from a p1 q1 bT vT b p2 q2 c ne show ?thesis by blast
qed

section \<open>Path and indicator models: checks at construction\<close>

lemma construct_Inr_iff: "construct errs m = Inr m' \<longleftrightarrow> errs = [] \<and> m' = m"
  by (auto simp: construct_def)

lemma PathTransformModel_init_valid:
  assumes "compiles p" and "p \<noteq> []"
  shows "PathTransformModel_init compiles dflt (Some p) = Inr \<lparr>default' = dflt, path = Some p\<rparr>"
  using assms
  by (simp add: PathTransformModel_init_def validate_path_def default_or_path_def str_truthy_def
        construct_def errors_of_def)

lemma PathTransformModel_init_invalid:
  assumes "\<not> compiles p"
  shows "\<exists>errs. PathTransformModel_init compiles dflt (Some p) = Inl (ValidationError errs)
           \<and> ValueError ''A valid path must be provided.'' \<in> set errs"
  using assms
  by (simp add: PathTransformModel_init_def validate_path_def construct_def errors_of_def)

lemma PathTransformModel_init_path_compiles:
  assumes "PathTransformModel_init compiles dflt pth = Inr m" and "path m = Some q"
  shows "compiles q"
  using assms
  by (cases pth)
     (auto simp: PathTransformModel_init_def validate_path_def construct_Inr_iff errors_of_def
           Let_def split: if_splits)

lemma MetadataTransformModel_init_valid:
  assumes "compiles p" and "p \<noteq> []"
    and "rule_errors lower (case always_array tdoc of None \<Rightarrow> [] | Some docs \<Rightarrow> docs) = []"
  shows "MetadataTransformModel_init compiles lower dflt (Some p) tdoc
           = Inr \<lparr>default' = dflt, path = Some p,
                  transform_rules = map_option (validated_rules lower) (always_array tdoc)\<rparr>"
  using assms
  by (cases "always_array tdoc")
     (simp_all add: MetadataTransformModel_init_def validate_path_def default_or_path_def
        str_truthy_def construct_def errors_of_def PathTransformModel.truncate_def rule_errors_def)

lemma MetadataTransformModel_init_invalid:
  assumes "\<not> compiles p"
  shows "\<exists>errs. MetadataTransformModel_init compiles lower dflt (Some p) tdoc
                  = Inl (ValidationError errs)
           \<and> ValueError ''A valid path must be provided.'' \<in> set errs"
  using assms
  by (simp add: MetadataTransformModel_init_def validate_path_def construct_def errors_of_def Let_def)

text \<open>
  Claim C7. A PathTransformModel (and a MetadataTransformModel, which inherits the field and
  its validator) whose \<^verbatim>\<open>path\<close> compiles under the query grammar is constructed; one
  whose \<^verbatim>\<open>path\<close> does not compile is rejected at construction with a validation error
  that carries \<^verbatim>\<open>'A valid path must be provided.'\<close>, so no model ever holds a path that
  does not compile. The grammar is the parameter \<open>compiles\<close>; it has no empty expression.
  For the MetadataTransformModel the transform rules of the document have to be accepted too.
\<close>

theorem path_syntax_checked_at_construction:
  assumes "\<not> compiles []"
  shows "(compiles p \<longrightarrow>
            PathTransformModel_init compiles dflt (Some p) = Inr \<lparr>default' = dflt, path = Some p\<rparr>)
       \<and> (compiles p
            \<and> rule_errors lower (case always_array tdoc of None \<Rightarrow> [] | Some docs \<Rightarrow> docs) = []
          \<longrightarrow> MetadataTransformModel_init compiles lower dflt (Some p) tdoc
                = Inr \<lparr>default' = dflt, path = Some p,
                       transform_rules = map_option (validated_rules lower) (always_array tdoc)\<rparr>)
       \<and> (\<not> compiles p \<longrightarrow>
            (\<exists>errs. PathTransformModel_init compiles dflt (Some p) = Inl (ValidationError errs)
                    \<and> ValueError ''A valid path must be provided.'' \<in> set errs)
            \<and> (\<exists>errs. MetadataTransformModel_init compiles lower dflt (Some p) tdoc
                         = Inl (ValidationError errs)
                    \<and> ValueError ''A valid path must be provided.'' \<in> set errs))
       \<and> (\<forall>m q. PathTransformModel_init compiles dflt pth = Inr m \<and> path m = Some q
                  \<longrightarrow> compiles q)"
proof -
  have ne: "compiles p \<Longrightarrow> p \<noteq> []" using assms by auto
  show ?thesis
    using PathTransformModel_init_valid [of compiles p dflt]
      MetadataTransformModel_init_valid [of compiles p lower tdoc dflt]
      PathTransformModel_init_invalid [of compiles p dflt]
      MetadataTransformModel_init_invalid [of compiles p lower dflt tdoc]
      PathTransformModel_init_path_compiles [of compiles dflt pth]
      ne
    by blast
qed

theorem path_syntax_checked_at_construction_witness:
  "\<not> example_compiles []
   \<and> example_compiles ''value''
   \<and> PathTransformModel_init example_compiles None (Some ''value'')
       = Inr \<lparr>default' = None, path = Some ''value''\<rparr>
   \<and> rule_errors id (case always_array TransformMissing of None \<Rightarrow> [] | Some docs \<Rightarrow> docs) = []
   \<and> MetadataTransformModel_init example_compiles id None (Some ''value'') TransformMissing
       = Inr \<lparr>default' = None, path = Some ''value'',
              transform_rules = map_option (validated_rules id) (always_array TransformMissing)\<rparr>
   \<and> \<not> example_compiles ''a b''
   \<and> (\<exists>errs. PathTransformModel_init example_compiles (Some ''x'') (Some ''a b'')
                = Inl (ValidationError errs)
           \<and> ValueError ''A valid path must be provided.'' \<in> set errs)"
proof -
  have e: "\<not> example_compiles []" and v: "example_compiles ''value''"
    and i: "\<not> example_compiles ''a b''"
    by (simp_all add: example_compiles_def)
  have r: "rule_errors id (case always_array TransformMissing of None \<Rightarrow> [] | Some docs \<Rightarrow> docs) = []"
    by (simp add: always_array_def rule_errors_def)
  from path_syntax_checked_at_construction
         [where compiles = example_compiles and p = "''value''" and dflt = None
            and lower = id and tdoc = TransformMissing and pth = None, OF e]
    path_syntax_checked_at_construction
         [where compiles = example_compiles and p = "''a b''" and dflt = "Some ''x''"
            and lower = id and tdoc = TransformMissing and pth = None, OF e]
    e v i r
  show ?thesis by blast
qed

lemma one_indicator_value_iff:
  "one_indicator_value values = Inr values
     \<longleftrightarrow> (value1 values \<noteq> None \<or> value2 values \<noteq> None \<or> value3 values \<noteq> None)"
  by (auto simp: one_indicator_value_def model_truthy_def split: option.splits)

text \<open>
  Claim C8. Constructing an IndicatorTransformModel with none of \<^verbatim>\<open>value1\<close>,
  \<^verbatim>\<open>value2\<close>, \<^verbatim>\<open>value3\<close> configured raises a validation error; with at least one of them
  configured \<^verbatim>\<open>_one_indicator_value\<close> passes, and construction succeeds when no field
  failed its own validation.
\<close>

theorem indicator_needs_a_value_transform:
  "(value1 values = None \<and> value2 values = None \<and> value3 values = None \<longrightarrow>
      (\<exists>errs. IndicatorTransformModel_init field_errors values = Inl (ValidationError errs)
          \<and> ValueError ''An indicator transform must be defined (e.g., summary, value1, value2, value3).''
              \<in> set errs))
   \<and> (value1 values \<noteq> None \<or> value2 values \<noteq> None \<or> value3 values \<noteq> None \<longrightarrow>
        one_indicator_value values = Inr values
        \<and> IndicatorTransformModel_init [] values = Inr values)"
  by (auto simp: IndicatorTransformModel_init_def one_indicator_value_def model_truthy_def
        construct_def errors_of_def split: option.splits)

theorem indicator_needs_a_value_transform_witness:
  "(\<exists>errs. IndicatorTransformModel_init [] \<lparr>value1 = None, value2 = None, value3 = None\<rparr>
             = Inl (ValidationError errs)
          \<and> ValueError ''An indicator transform must be defined (e.g., summary, value1, value2, value3).''
              \<in> set errs)
   \<and> value2 \<lparr>value1 = None, value2 = Some example_field, value3 = None\<rparr> \<noteq> None
   \<and> IndicatorTransformModel_init [] \<lparr>value1 = None, value2 = Some example_field, value3 = None\<rparr>
       = Inr \<lparr>value1 = None, value2 = Some example_field, value3 = None\<rparr>"
  using indicator_needs_a_value_transform
          [of "\<lparr>value1 = None, value2 = None, value3 = None\<rparr>" "[]"]
        indicator_needs_a_value_transform
          [of "\<lparr>value1 = None, value2 = Some example_field, value3 = None\<rparr>" "[]"]
  by simp

section \<open>Associated groups as separate association records\<close>



lemma is_list_or_missing_iff:
  "is_list_or_missing d k \<longleftrightarrow> dict_get d k = None \<or> (\<exists>xs. dict_get d k = Some (PList xs))"
  by (auto simp: is_list_or_missing_def split: option.splits pyval.splits)

lemma has_append_setdefault_list:
  "has_append (setdefault_list d k) k \<longleftrightarrow> is_list_or_missing d k"
  by (auto simp: has_append_iff is_list_or_missing_iff dict_get_setdefault_list)


lemma dict_get_list_append_other:
  "k' \<noteq> k \<Longrightarrow> dict_get (list_append d k x) k' = dict_get d k'"
  by (auto simp: list_append_def dict_get_set split: option.splits pyval.splits)

lemma item_setdefault_append_other:
  assumes "k' \<noteq> k"
  shows "dict_get (transformed_item (state_of (item_setdefault_append self k mk))) k'
           = dict_get (transformed_item self) k'"
  using assms
  by (auto simp: item_setdefault_append_def Let_def state_of_def dict_get_setdefault_list
        dict_get_list_append_other split: sum.splits)

lemma log_added_group_item:
  "transformed_item (state_of (log_added_group g k r)) = transformed_item (state_of r)"
  by (auto simp: log_added_group_def state_of_def split: sum.splits)










section \<open>The helpers and null values\<close>

lemma item_null_free_iff: "item_null_free self \<longleftrightarrow> dict_null_free (transformed_item self)"
  by (simp add: item_null_free_def dict_null_free_def)

lemma null_free_PDict: "null_free (PDict d) \<longleftrightarrow> dict_null_free d"
  by (simp add: dict_null_free_def)

lemma dict_null_free_set:
  "dict_null_free d \<Longrightarrow> null_free v \<Longrightarrow> dict_null_free (dict_set d k v)"
  by (induction d) (auto simp: dict_null_free_def)

lemma dict_null_free_get:
  "dict_null_free d \<Longrightarrow> dict_get d k = Some v \<Longrightarrow> null_free v"
  by (induction d) (auto simp: dict_null_free_def split: if_splits)

lemma dict_null_free_setdefault_list:
  "dict_null_free d \<Longrightarrow> dict_null_free (setdefault_list d k)"
  by (auto simp: setdefault_list_def dict_null_free_set split: option.splits)

lemma dict_null_free_list_append:
  assumes "dict_null_free d" and "null_free x"
  shows "dict_null_free (list_append d k x)"
proof (cases "dict_get d k")
  case None
  then show ?thesis using assms by (simp add: list_append_def)
next
  case (Some v)
  show ?thesis
  proof (cases v)
    case (PList xs)
    with Some assms dict_null_free_get [OF assms(1) Some] show ?thesis
      by (simp add: list_append_def dict_null_free_set)
  qed (use Some assms in \<open>simp_all add: list_append_def\<close>)
qed

lemma item_setdefault_append_null_free:
  assumes "item_null_free self"
    and "\<And>d x. dict_null_free d \<Longrightarrow> mk d = Inr x \<Longrightarrow> null_free x"
  shows "item_null_free (state_of (item_setdefault_append self k mk))"
proof -
  let ?d = "setdefault_list (transformed_item self) k"
  have d: "dict_null_free ?d"
    using assms(1) by (simp add: item_null_free_iff dict_null_free_setdefault_list)
  show ?thesis
  proof (cases "mk ?d")
    case (Inl e)
    with d show ?thesis
      by (simp add: item_setdefault_append_def Let_def state_of_def item_null_free_iff)
  next
    case (Inr x)
    with assms(2) [OF d] have "null_free x" by simp
    with d Inr show ?thesis
      by (simp add: item_setdefault_append_def Let_def state_of_def item_null_free_iff
            dict_null_free_list_append)
  qed
qed

lemma item_setdefault_append_const_null_free:
  assumes "item_null_free self" and "null_free x"
  shows "item_null_free (state_of (item_setdefault_append self k (\<lambda>_. Inr x)))"
  using assms by (intro item_setdefault_append_null_free) auto

lemma item_subscript_null_free:
  "dict_null_free d \<Longrightarrow> item_subscript d k = Inr x \<Longrightarrow> null_free x"
  by (auto simp: item_subscript_def dict_null_free_get split: option.splits)

lemma attribute_data_null_free:
  assumes "null_free t" and "null_free v" and "null_or_free s"
    and "p = PBool True \<longrightarrow> null_free d"
  shows "dict_null_free (attribute_data t v d p s)"
  using assms
  by (auto simp: attribute_data_def Let_def dict_null_free_def null_or_free_def)

lemma label_data_null_free:
  assumes "null_free n" and "null_or_free c" and "null_or_free d"
  shows "dict_null_free (label_data n c d)"
  using assms
  by (auto simp: label_data_def Let_def dict_null_free_def null_or_free_def)

lemma add_attribute_null_free:
  assumes "item_null_free self" and "null_or_free t" and "null_or_free v" and "null_or_free s"
    and "p = PBool True \<longrightarrow> null_free d"
  shows "item_null_free (state_of (add_attribute self t v d p s))"
proof (cases "t \<noteq> PNone \<and> v \<noteq> PNone")
  case True
  with assms have "dict_null_free (attribute_data t v d p s)"
    by (intro attribute_data_null_free) (auto simp: null_or_free_def)
  then have "null_free (PDict (attribute_data t v d p s))" by (simp only: null_free_PDict)
  moreover have "add_attribute self t v d p s
      = item_setdefault_append self ''attribute'' (\<lambda>_. Inr (PDict (attribute_data t v d p s)))"
    using True by (simp add: add_attribute_def)
  ultimately show ?thesis
    using item_setdefault_append_const_null_free [OF assms(1)] by simp
next
  case False
  with assms(1) show ?thesis by (auto simp: add_attribute_def state_of_def)
qed

lemma add_tag_null_free:
  assumes "item_null_free self" and "null_or_free n"
  shows "item_null_free (state_of (add_tag self n))"
  using assms
proof (cases "n = PNone")
  case True
  with assms(1) show ?thesis by (simp add: add_tag_def state_of_def)
next
  case False
  with assms have "null_free (PDict [(''name'', n)])" by (simp add: null_or_free_def)
  with False assms(1) show ?thesis
    by (simp add: add_tag_def item_setdefault_append_const_null_free)
qed

lemma add_security_label_null_free:
  assumes "item_null_free self" and "null_or_free n" and "null_or_free c" and "null_or_free d"
  shows "item_null_free (state_of (add_security_label self n c d))"
proof (cases "n = PNone")
  case True
  with assms(1) show ?thesis by (simp add: add_security_label_def state_of_def)
next
  case False
  with assms have "dict_null_free (label_data n c d)"
    by (intro label_data_null_free) (auto simp: null_or_free_def)
  then have "null_free (PDict (label_data n c d))" by (simp only: null_free_PDict)
  moreover have "add_security_label self n c d
      = item_setdefault_append self ''securityLabel'' (\<lambda>_. Inr (PDict (label_data n c d)))"
    using False by (simp add: add_security_label_def)
  ultimately show ?thesis
    using item_setdefault_append_const_null_free [OF assms(1)] by simp
qed

lemma add_file_occurrence_null_free:
  assumes "item_null_free self" and "null_or_free f" and "null_or_free p" and "null_or_free d"
  shows "item_null_free (state_of (add_file_occurrence self f p d))"
proof -
  let ?e = "filter (\<lambda>kv. truthy (snd kv)) [(''fileName'', f), (''path'', p), (''date'', d)]"
  have "dict_null_free ?e"
    using assms(2-4) by (auto simp: dict_null_free_def null_or_free_def)
  then have "null_free (PDict ?e)" by (simp only: null_free_PDict)
  from item_setdefault_append_const_null_free [OF assms(1) this] show ?thesis
    by (simp only: add_file_occurrence_def)
qed

lemma add_metadata_null_free:
  assumes "item_null_free self" and "null_or_free v"
  shows "item_null_free (add_metadata self key v)"
  using assms
  by (cases key)
     (auto simp: add_metadata_def item_null_free_iff null_or_free_def dict_null_free_set)

lemma add_name_null_free:
  assumes "item_null_free self" and "null_or_free v"
  shows "item_null_free (add_name self v)"
  using assms by (auto simp: add_name_def item_null_free_iff null_or_free_def dict_null_free_set)

lemma add_summary_null_free:
  assumes "item_null_free self" and "null_or_free v"
  shows "item_null_free (add_summary self v)"
  using assms by (auto simp: add_summary_def item_null_free_iff null_or_free_def dict_null_free_set)

lemma add_confidence_null_free:
  assumes "item_null_free self"
  shows "item_null_free (state_of (add_confidence py_int self v))"
  using assms
  by (auto simp: add_confidence_def state_of_def item_null_free_iff dict_null_free_set
        split: sum.splits)

lemma add_rating_null_free:
  assumes "item_null_free self"
  shows "item_null_free (state_of (add_rating py_float self v))"
  using assms
  by (auto simp: add_rating_def state_of_def item_null_free_iff dict_null_free_set
        split: sum.splits)

lemma log_added_group_null_free:
  "item_null_free (state_of r) \<Longrightarrow> item_null_free (state_of (log_added_group g k r))"
  by (auto simp: log_added_group_def state_of_def item_null_free_def split: sum.splits)

lemma add_associated_group_null_free:
  assumes "item_null_free self" and "null_free g"
  shows "item_null_free (state_of (add_associated_group self g))"
proof -
  have 1: "item_null_free (state_of (item_setdefault_append self ''associatedGroupXid'' (\<lambda>_. Inr g)))"
    using assms by (intro item_setdefault_append_null_free) auto
  have 2: "item_null_free (state_of (item_setdefault_append self ''associatedGroups''
                   (\<lambda>_. Inr (PDict [(''groupXid'', g)]))))"
    using assms by (intro item_setdefault_append_null_free) auto
  have 3: "item_null_free (state_of (item_setdefault_append self ''association''
                (\<lambda>d. bind_exc (item_subscript d ''xid'') (\<lambda>ref_2.
                      Inr (PDict [(''ref_1'', g), (''ref_2'', ref_2)])))))"
    using assms
    by (intro item_setdefault_append_null_free)
       (auto simp: bind_exc_Inr_iff dest: item_subscript_null_free)
  have 4: "item_null_free (state_of (item_setdefault_append self ''association''
                (\<lambda>d. bind_exc (item_subscript d ''summary'') (\<lambda>ref_2.
                      bind_exc (item_subscript d ''type'') (\<lambda>type_2.
                      Inr (PDict [(''ref_1'', g), (''ref_2'', ref_2),
                                  (''type_2'', type_2)]))))))"
    using assms
    by (intro item_setdefault_append_null_free)
       (auto simp: bind_exc_Inr_iff dest: item_subscript_null_free)
  from 1 2 3 4 assms(1) show ?thesis
    by (simp add: add_associated_group_def log_added_group_null_free)
       (simp add: state_of_def)
qed

lemma add_associated_indicator_null_free:
  assumes "item_null_free self" and "null_free s" and "null_free t"
  shows "item_null_free (state_of (add_associated_indicator self s t))"
proof -
  have 1: "item_null_free (state_of (item_setdefault_append self ''associatedIndicators''
             (\<lambda>_. Inr (PDict [(''summary'', s), (''indicatorType'', t)]))))"
    using assms by (intro item_setdefault_append_null_free) auto
  have 2: "item_null_free (state_of (item_setdefault_append self ''association''
             (\<lambda>d. bind_exc (item_subscript d ''xid'') (\<lambda>ref_1.
                   Inr (PDict [(''ref_1'', ref_1), (''ref_2'', s), (''type_2'', t)])))))"
    using assms
    by (intro item_setdefault_append_null_free)
       (auto simp: bind_exc_Inr_iff dest: item_subscript_null_free)
  from 1 2 show ?thesis by (simp add: add_associated_indicator_def)
qed

text \<open>
  Claim C3, as the code has it. \<^verbatim>\<open>add_attribute\<close> (null \<^verbatim>\<open>type_\<close> or \<^verbatim>\<open>value\<close>),
  \<^verbatim>\<open>add_tag\<close> and \<^verbatim>\<open>add_security_label\<close> (null \<^verbatim>\<open>name\<close>), \<^verbatim>\<open>add_metadata\<close> (null key or
  value), \<^verbatim>\<open>add_name\<close>, \<^verbatim>\<open>add_summary\<close>, \<^verbatim>\<open>add_confidence\<close> and \<^verbatim>\<open>add_rating\<close> change
  nothing when called with the null argument. An item free of nulls stays free of nulls under
  every helper, whether the call returns or raises, when each argument is null or a value
  without nulls inside, with two provisos: \<^verbatim>\<open>add_attribute\<close> stores \<^verbatim>\<open>displayed\<close> under
  \<^verbatim>\<open>pinned\<close>, so \<^verbatim>\<open>displayed\<close> must not be null when \<^verbatim>\<open>pinned\<close> is \<^verbatim>\<open>True\<close>; and
  \<^verbatim>\<open>add_associated_group\<close> and \<^verbatim>\<open>add_associated_indicator\<close> store their arguments without
  a check, so those must not be null. \<^verbatim>\<open>add_file_occurrence\<close> drops null fields but always
  appends an entry.
\<close>

theorem helpers_guard_against_null:
  assumes "item_null_free self"
  shows "add_attribute self PNone v d p s = Inr self
       \<and> add_attribute self t PNone d p s = Inr self
       \<and> add_tag self PNone = Inr self
       \<and> add_security_label self PNone c ds = Inr self
       \<and> add_metadata self None v = self
       \<and> add_metadata self key PNone = self
       \<and> add_name self PNone = self
       \<and> add_summary self PNone = self
       \<and> add_confidence py_int self PNone = Inr self
       \<and> add_rating py_float self PNone = Inr self
       \<and> (null_or_free t \<and> null_or_free v \<and> null_or_free s \<and> (p = PBool True \<longrightarrow> null_free d)
            \<longrightarrow> item_null_free (state_of (add_attribute self t v d p s)))
       \<and> (null_or_free n \<longrightarrow> item_null_free (state_of (add_tag self n)))
       \<and> (null_or_free n \<and> null_or_free c \<and> null_or_free ds
            \<longrightarrow> item_null_free (state_of (add_security_label self n c ds)))
       \<and> (null_or_free f \<and> null_or_free pa \<and> null_or_free da
            \<longrightarrow> item_null_free (state_of (add_file_occurrence self f pa da)))
       \<and> (null_or_free v
            \<longrightarrow> item_null_free (add_metadata self key v)
                \<and> item_null_free (add_name self v)
                \<and> item_null_free (add_summary self v))
       \<and> item_null_free (state_of (add_confidence py_int self v))
       \<and> item_null_free (state_of (add_rating py_float self v))
       \<and> (null_free g \<longrightarrow> item_null_free (state_of (add_associated_group self g)))
       \<and> (null_free su \<and> null_free it
            \<longrightarrow> item_null_free (state_of (add_associated_indicator self su it)))"
proof -
  have noop:
    "add_attribute self PNone v d p s = Inr self" "add_attribute self t PNone d p s = Inr self"
    "add_tag self PNone = Inr self" "add_security_label self PNone c ds = Inr self"
    "add_metadata self None v = self" "add_metadata self key PNone = self"
    "add_name self PNone = self" "add_summary self PNone = self"
    "add_confidence py_int self PNone = Inr self" "add_rating py_float self PNone = Inr self"
    by (simp_all add: add_attribute_def add_tag_def add_security_label_def add_metadata_def
          key_truthy_def add_name_def add_summary_def add_confidence_def add_rating_def)
  note keep =
    add_attribute_null_free [OF assms, of t v s p d]
    add_tag_null_free [OF assms, of n]
    add_security_label_null_free [OF assms, of n c ds]
    add_file_occurrence_null_free [OF assms, of f pa da]
    add_metadata_null_free [OF assms, of v key]
    add_name_null_free [OF assms, of v]
    add_summary_null_free [OF assms, of v]
    add_confidence_null_free [OF assms, of py_int v]
    add_rating_null_free [OF assms, of py_float v]
    add_associated_group_null_free [OF assms, of g]
    add_associated_indicator_null_free [OF assms, of su it]
  from noop keep show ?thesis by blast
qed

text \<open>
  Claim C3, as stated, makes every listed helper a no-op on null arguments and lets no call
  write a null. \<^verbatim>\<open>add_file_occurrence()\<close> with all arguments null appends an empty dict to
  \<^verbatim>\<open>fileOccurrence\<close>, and \<^verbatim>\<open>add_associated_group(None)\<close> on a Group record appends
  \<^verbatim>\<open>None\<close> to \<^verbatim>\<open>associatedGroupXid\<close>.
\<close>

theorem helpers_guard_against_null_counterexample:
  "add_file_occurrence (new_item IndicatorTransformModel False []) PNone PNone PNone
     = Inr (new_item IndicatorTransformModel False [(''fileOccurrence'', PList [PDict []])])
   \<and> add_file_occurrence (new_item IndicatorTransformModel False []) PNone PNone PNone
       \<noteq> Inr (new_item IndicatorTransformModel False [])
   \<and> add_associated_group (new_item GroupTransformModel False []) PNone
       = Inr (new_item GroupTransformModel False [(''associatedGroupXid'', PList [PNone])])
   \<and> item_null_free (new_item GroupTransformModel False [])
   \<and> \<not> item_null_free
           (new_item GroupTransformModel False [(''associatedGroupXid'', PList [PNone])])"
  by (simp add: add_file_occurrence_def add_associated_group_def item_setdefault_append_def
        setdefault_list_def has_append_def list_append_def new_item_def item_null_free_def Let_def)

theorem helpers_guard_against_null_witness:
  "item_null_free example_indicator
   \<and> add_attribute example_indicator PNone (PStr ''text'') (PBool False) (PBool True) PNone
       = Inr example_indicator
   \<and> add_tag example_indicator PNone = Inr example_indicator
   \<and> add_name example_indicator PNone = example_indicator
   \<and> add_confidence example_int example_indicator PNone = Inr example_indicator
   \<and> null_or_free (PStr ''Description'') \<and> null_or_free (PStr ''text'') \<and> null_or_free PNone
   \<and> null_free (PBool False)
   \<and> item_null_free (state_of (add_attribute example_indicator (PStr ''Description'')
                                   (PStr ''text'') (PBool False) (PBool True) PNone))
   \<and> item_null_free (state_of (add_tag example_indicator (PStr ''Description'')))
   \<and> item_null_free (state_of (add_security_label example_indicator (PStr ''Description'')
                                   PNone PNone))
   \<and> item_null_free (state_of (add_file_occurrence example_indicator (PStr ''text'') PNone PNone))
   \<and> item_null_free (add_metadata example_indicator (Some ''size'') (PStr ''text''))
   \<and> item_null_free (state_of (add_confidence example_int example_indicator (PStr ''text'')))
   \<and> null_free (PStr ''g-1'')
   \<and> item_null_free (state_of (add_associated_group example_indicator (PStr ''g-1'')))
   \<and> item_null_free (state_of (add_associated_indicator example_indicator (PStr ''g-1'')
                                   (PStr ''text'')))"
proof -
  have nf: "item_null_free example_indicator"
    by (simp add: item_null_free_def example_indicator_def new_item_def)
  have a: "null_or_free (PStr ''Description'')" "null_or_free (PStr ''text'')" "null_or_free PNone"
    "PBool True = PBool True \<longrightarrow> null_free (PBool False)" "null_free (PStr ''g-1'')"
    "null_free (PStr ''text'')"
    by (simp_all add: null_or_free_def)
  note w = helpers_guard_against_null
      [where self = example_indicator and v = "PStr ''text''" and d = "PBool False"
         and p = "PBool True" and s = PNone and t = "PStr ''Description''" and c = PNone
         and ds = PNone and key = "Some ''size''" and py_int = example_int
         and py_float = example_float and n = "PStr ''Description''" and f = "PStr ''text''"
         and pa = PNone and da = PNone and g = "PStr ''g-1''" and su = "PStr ''g-1''"
         and it = "PStr ''text''", OF nf]
  have n1: "add_attribute example_indicator PNone (PStr ''text'') (PBool False) (PBool True) PNone
       = Inr example_indicator"
    and n2: "add_tag example_indicator PNone = Inr example_indicator"
    and n3: "add_name example_indicator PNone = example_indicator"
    and n4: "add_confidence example_int example_indicator PNone = Inr example_indicator"
    using w by simp_all
  have k1: "item_null_free (state_of (add_attribute example_indicator (PStr ''Description'')
                                   (PStr ''text'') (PBool False) (PBool True) PNone))"
    and k2: "item_null_free (state_of (add_tag example_indicator (PStr ''Description'')))"
    and k3: "item_null_free (state_of (add_security_label example_indicator (PStr ''Description'')
                                   PNone PNone))"
    and k4: "item_null_free (state_of (add_file_occurrence example_indicator (PStr ''text'') PNone PNone))"
    and k5: "item_null_free (add_metadata example_indicator (Some ''size'') (PStr ''text''))"
    and k6: "item_null_free (state_of (add_confidence example_int example_indicator (PStr ''text'')))"
    and k7: "item_null_free (state_of (add_associated_group example_indicator (PStr ''g-1'')))"
    and k8: "item_null_free (state_of (add_associated_indicator example_indicator (PStr ''g-1'')
                                   (PStr ''text'')))"
    using w a by simp_all
  have d: "null_free (PBool False)" by simp
  from nf a(1-3) d a(5) n1 n2 n3 n4 k1 k2 k3 k4 k5 k6 k7 k8 show ?thesis by (intro conjI)
qed

section \<open>Batch and v3 serialisation of the same item\<close>






lemma list_with_cong: "dict_get d' k = dict_get d k \<Longrightarrow> list_with ks d' k = list_with ks d k"
  by (simp add: list_with_def)












section \<open>Items built by the helpers\<close>

text \<open>
  The shape asked of an item above is the one the helpers maintain: the empty item has it, and
  every helper keeps it, whether the call returns or raises; \<^verbatim>\<open>add_metadata\<close> keeps it as
  long as its key is not one of the five keys the shape speaks about.
\<close>

lemma item_setdefault_append_get:
  "dict_get (transformed_item (state_of (item_setdefault_append self k mk))) k'
     = (if k' \<noteq> k then dict_get (transformed_item self) k'
        else if is_list_or_missing (transformed_item self) k
        then Some (PList (entries (transformed_item self) k
                          @ (case mk (setdefault_list (transformed_item self) k) of
                               Inl e \<Rightarrow> [] | Inr x \<Rightarrow> [x])))
        else dict_get (transformed_item self) k)"
proof (cases "k' = k")
  case False
  then show ?thesis by (simp add: item_setdefault_append_other)
next
  case True
  let ?d = "transformed_item self"
  show ?thesis
  proof (cases "is_list_or_missing ?d k")
    case False
    then have "\<not> has_append (setdefault_list ?d k) k"
      by (simp add: has_append_setdefault_list)
    moreover from False have "dict_get ?d k \<noteq> None"
      by (auto simp: is_list_or_missing_iff)
    ultimately show ?thesis using True False
      by (auto simp: item_setdefault_append_def Let_def state_of_def dict_get_setdefault_list)
  next
    case lm: True
    then have ha: "has_append (setdefault_list ?d k) k"
      by (simp add: has_append_setdefault_list)
    have g: "dict_get (setdefault_list ?d k) k = Some (PList (entries ?d k))"
      using lm by (auto simp: is_list_or_missing_iff dict_get_setdefault_list entries_def)
    show ?thesis
      using True lm ha g
      by (auto simp: item_setdefault_append_def Let_def state_of_def dict_get_list_append
            split: sum.splits)
  qed
qed

lemma list_with_append:
  assumes "list_with ks d k" and "dict_get d' k = Some (PList (entries d k @ ys))"
    and "list_all (entry_with ks) ys"
  shows "list_with ks d' k"
  using assms
  by (auto simp: list_with_def entries_def split: option.splits pyval.splits)

lemma item_shape_setdefault_append:
  assumes "item_shape (transformed_item self)"
    and "\<And>d x. mk d = Inr x \<Longrightarrow>
           (k = ''attribute'' \<longrightarrow> entry_with [''type'', ''value''] x)
           \<and> (k = ''tag'' \<longrightarrow> entry_with [''name''] x)
           \<and> (k = ''securityLabel'' \<longrightarrow> entry_with [''name''] x)
           \<and> (k = ''fileOccurrence'' \<longrightarrow> entry_with [] x)"
  shows "item_shape (transformed_item (state_of (item_setdefault_append self k mk)))"
proof -
  let ?d = "transformed_item self"
  let ?d' = "transformed_item (state_of (item_setdefault_append self k mk))"
  let ?ys = "case mk (setdefault_list ?d k) of Inl e \<Rightarrow> [] | Inr x \<Rightarrow> [x]"
  have lw: "list_with ks ?d' k'"
    if "list_with ks ?d k'" and "k' = k \<Longrightarrow> list_all (entry_with ks) ?ys" for ks k'
  proof (cases "k' = k")
    case False
    with that(1) show ?thesis
      by (simp add: list_with_cong [of ?d' k' ?d] item_setdefault_append_get)
  next
    case True
    from that(1) True have "is_list_or_missing ?d k"
      by (auto simp: list_with_def is_list_or_missing_def split: option.splits pyval.splits)
    then have "dict_get ?d' k = Some (PList (entries ?d k @ ?ys))"
      by (simp add: item_setdefault_append_get)
    with that True show ?thesis by (auto intro: list_with_append)
  qed
  have ys: "list_all (entry_with ks) ?ys"
    if "\<And>x. mk (setdefault_list ?d k) = Inr x \<Longrightarrow> entry_with ks x" for ks
    using that by (cases "mk (setdefault_list ?d k)") auto
  have ilm: "is_list_or_missing ?d' ''associatedGroupXid''"
    using assms(1)
    by (auto simp: item_shape_def is_list_or_missing_def item_setdefault_append_get
          split: option.splits pyval.splits)
  from assms(1) have s: "list_with [''type'', ''value''] ?d ''attribute''"
    "list_with [''name''] ?d ''tag''" "list_with [''name''] ?d ''securityLabel''"
    "list_with [] ?d ''fileOccurrence''"
    by (simp_all add: item_shape_def)
  have "list_with [''type'', ''value''] ?d' ''attribute''"
    by (rule lw [OF s(1)], rule ys) (use assms(2) in blast)
  moreover have "list_with [''name''] ?d' ''tag''"
    by (rule lw [OF s(2)], rule ys) (use assms(2) in blast)
  moreover have "list_with [''name''] ?d' ''securityLabel''"
    by (rule lw [OF s(3)], rule ys) (use assms(2) in blast)
  moreover have "list_with [] ?d' ''fileOccurrence''"
    by (rule lw [OF s(4)], rule ys) (use assms(2) in blast)
  ultimately show ?thesis using ilm by (simp add: item_shape_def)
qed

lemma item_shape_dict_set:
  assumes "item_shape d"
    and "k \<notin> {''associatedGroupXid'', ''attribute'', ''tag'', ''securityLabel'', ''fileOccurrence''}"
  shows "item_shape (dict_set d k v)"
proof -
  have "dict_get (dict_set d k v) k' = dict_get d k'"
    if "k' \<in> {''associatedGroupXid'', ''attribute'', ''tag'', ''securityLabel'', ''fileOccurrence''}"
    for k'
    using that assms(2) by (auto simp: dict_get_set)
  then show ?thesis
    using assms(1) by (simp add: item_shape_def list_with_def is_list_or_missing_def)
qed

lemma attribute_data_entry:
  "entry_with [''type'', ''value''] (PDict (attribute_data t v d p s))"
  by (simp add: entry_with_def attribute_data_def Let_def dict_get_set)

lemma label_data_entry: "entry_with [''name''] (PDict (label_data n c d))"
  by (simp add: entry_with_def label_data_def Let_def dict_get_set)

lemma helpers_keep_item_shape:
  assumes "item_shape (transformed_item self)"
  shows "item_shape (transformed_item (state_of (add_attribute self t v d p s)))"
    and "item_shape (transformed_item (state_of (add_tag self n)))"
    and "item_shape (transformed_item (state_of (add_security_label self n c ds)))"
    and "item_shape (transformed_item (state_of (add_file_occurrence self f pa da)))"
    and "item_shape (transformed_item (state_of (add_associated_group self g)))"
    and "item_shape (transformed_item (state_of (add_associated_indicator self su it)))"
    and "item_shape (transformed_item (add_name self v))"
    and "item_shape (transformed_item (add_summary self v))"
    and "item_shape (transformed_item (state_of (add_confidence py_int self v)))"
    and "item_shape (transformed_item (state_of (add_rating py_float self v)))"
    and "key \<notin> Some ` {''associatedGroupXid'', ''attribute'', ''tag'', ''securityLabel'',
                          ''fileOccurrence''}
         \<Longrightarrow> item_shape (transformed_item (add_metadata self key v))"
proof -
  note app = item_shape_setdefault_append [OF assms]
  show "item_shape (transformed_item (state_of (add_attribute self t v d p s)))"
    using assms app [of "\<lambda>_. Inr (PDict (attribute_data t v d p s))" "''attribute''"]
    by (auto simp: add_attribute_def state_of_def attribute_data_entry)
  show "item_shape (transformed_item (state_of (add_tag self n)))"
    using assms app [of "\<lambda>_. Inr (PDict [(''name'', n)])" "''tag''"]
    by (auto simp: add_tag_def state_of_def entry_with_def)
  show "item_shape (transformed_item (state_of (add_security_label self n c ds)))"
    using assms app [of "\<lambda>_. Inr (PDict (label_data n c ds))" "''securityLabel''"]
    by (auto simp: add_security_label_def state_of_def label_data_entry)
  show "item_shape (transformed_item (state_of (add_file_occurrence self f pa da)))"
    unfolding add_file_occurrence_def by (rule app) (auto simp: entry_with_def)
  show "item_shape (transformed_item (state_of (add_associated_group self g)))"
    using assms
    by (auto simp: add_associated_group_def log_added_group_item state_of_def [of "Inr self"]
          intro!: app)
  show "item_shape (transformed_item (state_of (add_associated_indicator self su it)))"
    by (auto simp: add_associated_indicator_def intro!: app)
  show "item_shape (transformed_item (add_name self v))"
    using assms by (simp add: add_name_def item_shape_dict_set)
  show "item_shape (transformed_item (add_summary self v))"
    using assms by (simp add: add_summary_def item_shape_dict_set)
  show "item_shape (transformed_item (state_of (add_confidence py_int self v)))"
    using assms
    by (auto simp: add_confidence_def state_of_def item_shape_dict_set split: sum.splits)
  show "item_shape (transformed_item (state_of (add_rating py_float self v)))"
    using assms
    by (auto simp: add_rating_def state_of_def item_shape_dict_set split: sum.splits)
  show "item_shape (transformed_item (add_metadata self key v))"
    if "key \<notin> Some ` {''associatedGroupXid'', ''attribute'', ''tag'', ''securityLabel'',
                          ''fileOccurrence''}"
    using assms that
    by (cases key) (auto simp: add_metadata_def intro!: item_shape_dict_set)
qed

lemma item_shape_empty: "item_shape []"
  by (simp add: item_shape_def list_with_def is_list_or_missing_def)

end
